theory Spec2Isabelle
  imports Main "HOL-Library.Word" "HOL-Library.Multiset" "HOL-Library.AList"
begin

section \<open>JavaScript strings and JSON values\<close>

text \<open>
  A JavaScript string is a sequence of UTF-16 code units. String literals of the source
  that are plain ASCII are written with \<open>ascii\<close>.
\<close>

type_synonym jsstring = "16 word list"

definition ascii :: "string \<Rightarrow> jsstring" where
  "ascii s = map (\<lambda>c. of_nat (of_char c)) s"

text \<open>
  \<^verbatim>\<open>String.prototype.trim\<close> removes the code units of WhiteSpace and LineTerminator from
  both ends: TAB, LF, VT, FF, CR, SP, NBSP, U+1680, U+2000..U+200A, LS, PS, U+202F,
  U+205F, U+3000 and U+FEFF.
\<close>

definition isWhiteSpace :: "16 word \<Rightarrow> bool" where
  "isWhiteSpace c \<longleftrightarrow>
     c \<in> set [0x9, 0xA, 0xB, 0xC, 0xD, 0x20, 0xA0, 0x1680, 0x2028, 0x2029, 0x202F, 0x205F,
              0x3000, 0xFEFF]
     \<or> (0x2000 \<le> c \<and> c \<le> 0x200A)"

definition trim :: "jsstring \<Rightarrow> jsstring" where
  "trim s = rev (dropWhile isWhiteSpace (rev (dropWhile isWhiteSpace s)))"

fun join :: "jsstring \<Rightarrow> jsstring list \<Rightarrow> jsstring" where
  "join sep [] = []"
| "join sep [s] = s"
| "join sep (s # t # ss) = s @ sep @ join sep (t # ss)"

text \<open>
  The values \<^verbatim>\<open>JSON.parse\<close> produces. The number type is a parameter: the handlers only
  test a number for truthiness and convert it to a string. An object lists each of its
  own keys once. \<open>None\<close> of type \<open>'n jsval\<close> is \<^verbatim>\<open>undefined\<close>.
\<close>

datatype 'n json =
    JNull
  | JBool bool
  | JNum 'n
  | JStr jsstring
  | JArr "'n json list"
  | JObj "(jsstring \<times> 'n json) list"

type_synonym 'n jsval = "'n json option"

text \<open>
  The built-in functions of the runtime that the source calls and that are not modelled
  here: they are parameters of every definition that uses them.
  \<open>JSON_parse\<close> returns \<open>None\<close> where \<^verbatim>\<open>JSON.parse\<close> throws a SyntaxError;
  \<open>parseInt\<close> returns \<open>None\<close> for \<^verbatim>\<open>NaN\<close>, and its other results are
  taken to be integers;
  \<open>base64\<close> is \<^verbatim>\<open>Buffer.prototype.toString("base64")\<close>.
\<close>

record 'n platform =
  toLowerCase :: "jsstring \<Rightarrow> jsstring"
  JSON_parse :: "jsstring \<Rightarrow> 'n json option"
  Number_falsy :: "'n \<Rightarrow> bool"
  Number_toString :: "'n \<Rightarrow> jsstring"
  parseInt :: "jsstring \<Rightarrow> int option"
  base64 :: "8 word list \<Rightarrow> jsstring"

text \<open>
  What a \<^verbatim>\<open>catch\<close> clause can receive: an \<^verbatim>\<open>Error\<close> raised by the runtime itself (a
  TypeError, a SyntaxError, a rejected request), whose message is the engine's; an
  \<^verbatim>\<open>Error\<close> the source creates with \<^verbatim>\<open>new Error(message)\<close>; a thrown value that is not
  an \<^verbatim>\<open>Error\<close>.
\<close>

datatype exn = EngineError | Error jsstring | NonError

text \<open>ToBoolean.\<close>

fun truthy :: "('n, 'x) platform_scheme \<Rightarrow> 'n jsval \<Rightarrow> bool" where
  "truthy P None = False"
| "truthy P (Some JNull) = False"
| "truthy P (Some (JBool b)) = b"
| "truthy P (Some (JNum n)) = (\<not> Number_falsy P n)"
| "truthy P (Some (JStr s)) = (s \<noteq> [])"
| "truthy P (Some (JArr xs)) = True"
| "truthy P (Some (JObj kvs)) = True"

text \<open>
  Reading a property \<^verbatim>\<open>v.k\<close> of a parsed value, for the keys the handlers read
  (\<^verbatim>\<open>arabic\<close>, \<^verbatim>\<open>english\<close>, \<^verbatim>\<open>choices\<close>, \<^verbatim>\<open>message\<close>, \<^verbatim>\<open>content\<close>, \<^verbatim>\<open>model\<close>, \<^verbatim>\<open>error\<close>):
  none of them is inherited from a prototype, so only an object's own keys answer.
  Reading a property of \<^verbatim>\<open>null\<close> or \<^verbatim>\<open>undefined\<close> throws a TypeError.
\<close>

fun getProp :: "'n jsval \<Rightarrow> jsstring \<Rightarrow> exn + 'n jsval" where
  "getProp None k = Inl EngineError"
| "getProp (Some JNull) k = Inl EngineError"
| "getProp (Some (JObj kvs)) k = Inr (map_of kvs k)"
| "getProp (Some v) k = Inr None"

text \<open>Optional chaining \<^verbatim>\<open>v?.k\<close>: \<^verbatim>\<open>undefined\<close> when \<open>v\<close> is \<^verbatim>\<open>null\<close> or \<^verbatim>\<open>undefined\<close>.\<close>

fun getPropOpt :: "'n jsval \<Rightarrow> jsstring \<Rightarrow> 'n jsval" where
  "getPropOpt None k = None"
| "getPropOpt (Some JNull) k = None"
| "getPropOpt (Some (JObj kvs)) k = map_of kvs k"
| "getPropOpt (Some v) k = None"

text \<open>The element read \<^verbatim>\<open>v[0]\<close>.\<close>

fun getIndex0 :: "'n jsval \<Rightarrow> exn + 'n jsval" where
  "getIndex0 None = Inl EngineError"
| "getIndex0 (Some JNull) = Inl EngineError"
| "getIndex0 (Some (JArr xs)) = Inr (case xs of [] \<Rightarrow> None | x # _ \<Rightarrow> Some x)"
| "getIndex0 (Some (JStr s)) = Inr (case s of [] \<Rightarrow> None | c # _ \<Rightarrow> Some (JStr [c]))"
| "getIndex0 (Some (JObj kvs)) = Inr (map_of kvs (ascii ''0''))"
| "getIndex0 (Some v) = Inr None"

text \<open>
  ToString of a parsed value; \<open>None\<close> is the TypeError of an object whose own key
  \<^verbatim>\<open>toString\<close> hides \<^verbatim>\<open>Object.prototype.toString\<close> with a value that cannot be called.
  An array joins the strings of its elements with commas, \<^verbatim>\<open>null\<close> elements giving the
  empty string.
\<close>

fun ToString :: "('n, 'x) platform_scheme \<Rightarrow> 'n json \<Rightarrow> jsstring option"
  and ToStrings :: "('n, 'x) platform_scheme \<Rightarrow> 'n json list \<Rightarrow> jsstring list option" where
  "ToString P JNull = Some (ascii ''null'')"
| "ToString P (JBool b) = Some (if b then ascii ''true'' else ascii ''false'')"
| "ToString P (JNum n) = Some (Number_toString P n)"
| "ToString P (JStr s) = Some s"
| "ToString P (JArr xs) = map_option (join (ascii '','')) (ToStrings P xs)"
| "ToString P (JObj kvs) =
     (if map_of kvs (ascii ''toString'') = None then Some (ascii ''[object Object]'') else None)"
| "ToStrings P [] = Some []"
| "ToStrings P (x # xs) =
     (case (case x of JNull \<Rightarrow> Some [] | _ \<Rightarrow> ToString P x) of
        None \<Rightarrow> None
      | Some s \<Rightarrow> (case ToStrings P xs of None \<Rightarrow> None | Some ss \<Rightarrow> Some (s # ss)))"

text \<open>\<^verbatim>\<open>String(v)\<close>.\<close>

fun String_of :: "('n, 'x) platform_scheme \<Rightarrow> 'n jsval \<Rightarrow> jsstring option" where
  "String_of P None = Some (ascii ''undefined'')"
| "String_of P (Some v) = ToString P v"

text \<open>
  \<^verbatim>\<open>Array.prototype.filter\<close> with a callback that may throw: the first exception ends the
  call.
\<close>

fun filter_throwing :: "('a \<Rightarrow> bool option) \<Rightarrow> 'a list \<Rightarrow> 'a list option" where
  "filter_throwing p [] = Some []"
| "filter_throwing p (x # xs) =
     (case p x of
        None \<Rightarrow> None
      | Some b \<Rightarrow> (case filter_throwing p xs of
                    None \<Rightarrow> None
                  | Some ys \<Rightarrow> Some (if b then x # ys else ys)))"

text \<open>\<^verbatim>\<open>Array.prototype.map\<close> with a callback that may throw.\<close>

fun map_throwing :: "('a \<Rightarrow> 'b option) \<Rightarrow> 'a list \<Rightarrow> 'b list option" where
  "map_throwing f [] = Some []"
| "map_throwing f (x # xs) =
     (case f x of
        None \<Rightarrow> None
      | Some y \<Rightarrow> (case map_throwing f xs of None \<Rightarrow> None | Some ys \<Rightarrow> Some (y # ys)))"

text \<open>
  \<^verbatim>\<open>content.match(/\[[\s\S]*\]/)\<close>: the match starts at the first \<^verbatim>\<open>[\<close> and, the star being
  greedy over every character, ends at the last \<^verbatim>\<open>]\<close> after it; there is no match when no
  \<^verbatim>\<open>]\<close> follows the first \<^verbatim>\<open>[\<close>. The result is \<^verbatim>\<open>jsonMatch[0]\<close>.
\<close>

definition jsonMatch :: "jsstring \<Rightarrow> jsstring option" where
  "jsonMatch content =
     (case dropWhile (\<lambda>c. c \<noteq> 0x5B) content of
        [] \<Rightarrow> None
      | bracket # rest \<Rightarrow>
          (case rev (dropWhile (\<lambda>c. c \<noteq> 0x5D) (rev rest)) of
             [] \<Rightarrow> None
           | inner \<Rightarrow> Some (bracket # inner)))"


section \<open>The image-extraction request handlers\<close>

subsection \<open>Data\<close>

record word_pair =
  wp_arabic :: jsstring
  wp_english :: jsstring

text \<open>A sentence's \<^verbatim>\<open>english\<close> is optional: \<open>None\<close> is \<^verbatim>\<open>undefined\<close>.\<close>

record sentence =
  sn_arabic :: jsstring
  sn_english :: "jsstring option"

text \<open>The text of an error response: a literal, or the message of an engine error.\<close>

datatype errtext = Text jsstring | EngineMessage

text \<open>
  The JSON bodies the handlers answer with:
  \<^verbatim>\<open>{error}\<close>, \<^verbatim>\<open>{error, rawResponse}\<close>,
  \<^verbatim>\<open>{success: true, wordPairs, duplicates, model}\<close> and
  \<^verbatim>\<open>{success: true, sentences, duplicates, model}\<close>.
  \<open>Json status body\<close> is \<^verbatim>\<open>NextResponse.json(body, {status})\<close>, the status being 200 when
  the source gives none.
\<close>

datatype 'n body =
    ErrorOnly errtext
  | ErrorRaw jsstring "'n json"
  | WordPairs "word_pair list" "word_pair list" "'n json"
  | Sentences "sentence list" "sentence list" "'n json"

datatype 'n response = Json nat "'n body"

record upload =
  file_type :: jsstring
  file_bytes :: "8 word list"

text \<open>The fields of the multipart form; \<open>None\<close> is the \<^verbatim>\<open>null\<close> of \<^verbatim>\<open>formData.get\<close>.\<close>

record form =
  f_image :: "upload option"
  f_model :: "jsstring option"
  f_customPrompt :: "jsstring option"
  f_existingWords :: "jsstring option"
  f_existingSentences :: "jsstring option"
  f_lessonId :: "jsstring option"

record openrouter_config =
  apiKey :: "jsstring option"
  supportedModels :: "jsstring list"

datatype content_part = TextPart jsstring | ImageUrlPart jsstring

record message =
  msg_role :: jsstring
  msg_content :: "content_part list"

text \<open>
  The request \<^verbatim>\<open>fetch\<close> sends; the three \<open>body\<close> fields are the object given to
  \<^verbatim>\<open>JSON.stringify\<close>.
\<close>

record chat_request =
  req_url :: jsstring
  req_method :: jsstring
  req_headers :: "(jsstring \<times> jsstring) list"
  body_model :: jsstring
  body_messages :: "message list"
  body_temperature :: int

text \<open>
  What \<^verbatim>\<open>fetch\<close> gives back: a rejection, or a response with \<^verbatim>\<open>ok\<close>, \<^verbatim>\<open>status\<close>,
  \<^verbatim>\<open>statusText\<close> and the outcome of \<^verbatim>\<open>response.json()\<close> (\<open>None\<close> when it rejects).
\<close>

datatype 'n fetch_result =
    FetchRejected
  | FetchResponse bool 'n jsstring "'n json option"

record lesson =
  lesson_id :: int
  lesson_unitId :: int

record vocabulary_row =
  row_arabic :: jsstring
  row_english :: jsstring

text \<open>
  Everything outside the handler that answers it: the admin check, the parsed form
  (\<open>None\<close> when \<^verbatim>\<open>request.formData()\<close> rejects), the three database queries of the
  conversation handler, the configuration, two environment variables and the HTTP call.
  The database queries, \<^verbatim>\<open>file.arrayBuffer()\<close> and \<^verbatim>\<open>getOpenRouterConfig()\<close> are taken to
  resolve. The messages written to the console are left out.
\<close>

record 'n world =
  requireAdmin :: bool
  formData :: "form option"
  db_lesson :: "int \<Rightarrow> lesson option"
  db_vocabulary_lessons :: "int \<Rightarrow> lesson list"
  db_vocabulary_words :: "int list \<Rightarrow> vocabulary_row list"
  getOpenRouterConfig :: "openrouter_config option"
  NEXT_PUBLIC_APP_URL :: "jsstring option"
  NEXT_PUBLIC_APP_NAME :: "jsstring option"
  fetch :: "'n fetch_result"

text \<open>The calls a handler makes on the outside, in the order it makes them.\<close>

datatype effect =
    RequireAdmin
  | ReadFormData
  | SelectLesson int
  | SelectVocabularyLessons int
  | SelectVocabularyWords "int list"
  | GetOpenRouterConfig
  | Fetch chat_request

subsection \<open>Building the request\<close>

definition visionModels :: "jsstring list" where
  "visionModels =
     [ascii ''openai/gpt-4o'', ascii ''openai/gpt-4o-mini'', ascii ''anthropic/claude-3.5-sonnet'',
      ascii ''anthropic/claude-3-opus'', ascii ''google/gemini-pro-vision'']"

definition default_model :: "jsstring list \<Rightarrow> jsstring" where
  "default_model supported =
     (if length supported > 0 then
        (case find (\<lambda>m. m \<in> set supported) visionModels of
           Some supportedVisionModel \<Rightarrow> supportedVisionModel
         | None \<Rightarrow> visionModels ! 0)
      else visionModels ! 0)"

definition choose_model :: "jsstring option \<Rightarrow> jsstring list \<Rightarrow> jsstring" where
  "choose_model selectedModel supported =
     (case selectedModel of
        None \<Rightarrow> default_model supported
      | Some m \<Rightarrow> if m \<noteq> [] \<and> m \<in> set supported then m else default_model supported)"

text \<open>\<^verbatim>\<open>customPrompt?.trim() || basePrompt\<close>\<close>

definition promptText :: "jsstring option \<Rightarrow> jsstring \<Rightarrow> jsstring" where
  "promptText customPrompt basePrompt =
     (case customPrompt of
        None \<Rightarrow> basePrompt
      | Some p \<Rightarrow> if trim p \<noteq> [] then trim p else basePrompt)"

definition messages :: "jsstring \<Rightarrow> jsstring \<Rightarrow> jsstring \<Rightarrow> message list" where
  "messages text mimeType base64Image =
     [\<lparr>msg_role = ascii ''user'',
       msg_content =
         [TextPart text,
          ImageUrlPart (ascii ''data:'' @ mimeType @ ascii '';base64,'' @ base64Image)]\<rparr>]"

text \<open>\<^verbatim>\<open>process.env.X || fallback\<close>\<close>

definition env_or :: "jsstring option \<Rightarrow> jsstring \<Rightarrow> jsstring" where
  "env_or v fallback = (case v of None \<Rightarrow> fallback | Some s \<Rightarrow> if s \<noteq> [] then s else fallback)"

definition chat_completion ::
  "('n, 'x) world_scheme \<Rightarrow> jsstring \<Rightarrow> jsstring \<Rightarrow> message list \<Rightarrow> chat_request" where
  "chat_completion W key model msgs =
     \<lparr>req_url = ascii ''https://openrouter.ai/api/v1/chat/completions'',
      req_method = ascii ''POST'',
      req_headers =
        [(ascii ''Content-Type'', ascii ''application/json''),
         (ascii ''Authorization'', ascii ''Bearer '' @ key),
         (ascii ''HTTP-Referer'', env_or (NEXT_PUBLIC_APP_URL W) (ascii ''http://localhost:3000'')),
         (ascii ''X-Title'', env_or (NEXT_PUBLIC_APP_NAME W) (ascii ''TaskFlow''))],
      body_model = model,
      body_messages = msgs,
      body_temperature = 0\<rparr>"

subsection \<open>Reading the reply\<close>

text \<open>
  The exception of the branch \<^verbatim>\<open>!response.ok\<close>:
  \<^verbatim>\<open>new Error(errorData.error?.message || `OpenRouter API error: ...`)\<close>, where
  \<^verbatim>\<open>errorData\<close> is the parsed body, or \<^verbatim>\<open>{}\<close> when the body does not parse.
\<close>

definition api_failure ::
  "('n, 'x) platform_scheme \<Rightarrow> 'n \<Rightarrow> jsstring \<Rightarrow> 'n json option \<Rightarrow> exn" where
  "api_failure P status statusText parsed =
     (let errorData = (case parsed of None \<Rightarrow> JObj [] | Some d \<Rightarrow> d) in
      case getProp (Some errorData) (ascii ''error'') of
        Inl e \<Rightarrow> e
      | Inr err \<Rightarrow>
          (let m = getPropOpt err (ascii ''message'') in
           if truthy P m then (case String_of P m of None \<Rightarrow> EngineError | Some s \<Rightarrow> Error s)
           else Error (ascii ''OpenRouter API error: '' @ Number_toString P status
                       @ ascii '' '' @ statusText)))"

text \<open>\<^verbatim>\<open>x || fallback\<close> on parsed values.\<close>

definition or_else :: "('n, 'x) platform_scheme \<Rightarrow> 'n jsval \<Rightarrow> 'n json \<Rightarrow> 'n json" where
  "or_else P v fallback = (case v of None \<Rightarrow> fallback | Some x \<Rightarrow> if truthy P v then x else fallback)"

text \<open>\<^verbatim>\<open>data.choices[0]?.message?.content || ""\<close>\<close>

definition reply_content :: "('n, 'x) platform_scheme \<Rightarrow> 'n json \<Rightarrow> exn + 'n json" where
  "reply_content P data =
     (case getProp (Some data) (ascii ''choices'') of
        Inl e \<Rightarrow> Inl e
      | Inr choices \<Rightarrow>
          (case getIndex0 choices of
             Inl e \<Rightarrow> Inl e
           | Inr choice \<Rightarrow>
               Inr (or_else P (getPropOpt (getPropOpt choice (ascii ''message'')) (ascii ''content''))
                      (JStr []))))"

text \<open>
  The first statements of the inner \<^verbatim>\<open>try\<close>: parse the bracket match when there is one
  and the whole content otherwise, and demand an array. \<open>None\<close> is any exception:
  \<^verbatim>\<open>content.match\<close> is not a function when the content is not a string, \<^verbatim>\<open>JSON.parse\<close>
  throws, or the source throws "Response is not an array".
\<close>

definition parse_candidate :: "jsstring \<Rightarrow> jsstring" where
  "parse_candidate content = (case jsonMatch content of Some m \<Rightarrow> m | None \<Rightarrow> content)"

definition reply_array :: "('n, 'x) platform_scheme \<Rightarrow> 'n json \<Rightarrow> 'n json list option" where
  "reply_array P content =
     (case content of
        JStr c \<Rightarrow>
          (case JSON_parse P (parse_candidate c) of
             Some (JArr elems) \<Rightarrow> Some elems
           | _ \<Rightarrow> None)
      | _ \<Rightarrow> None)"

text \<open>
  \<^verbatim>\<open>let existing = []; if (json) { try { existing = JSON.parse(json) } catch { } }\<close>
\<close>

definition parse_existing :: "('n, 'x) platform_scheme \<Rightarrow> jsstring option \<Rightarrow> 'n json" where
  "parse_existing P field =
     (case field of
        None \<Rightarrow> JArr []
      | Some s \<Rightarrow>
          if s = [] then JArr []
          else (case JSON_parse P s of None \<Rightarrow> JArr [] | Some v \<Rightarrow> v))"

text \<open>\<^verbatim>\<open>(text) => text.toLowerCase().trim()\<close>, the source's normalizeWord and normalizeText.\<close>

definition normalizeWord :: "('n, 'x) platform_scheme \<Rightarrow> jsstring \<Rightarrow> jsstring" where
  "normalizeWord P text = trim (toLowerCase P text)"

text \<open>
  The same function applied to a property of an existing record: anything but a string
  has no \<^verbatim>\<open>toLowerCase\<close>, a TypeError.
\<close>

definition normalizeField ::
  "('n, 'x) platform_scheme \<Rightarrow> 'n json \<Rightarrow> jsstring \<Rightarrow> jsstring option" where
  "normalizeField P w k =
     (case getProp (Some w) k of
        Inr (Some (JStr s)) \<Rightarrow> Some (normalizeWord P s)
      | _ \<Rightarrow> None)"

subsection \<open>The vocabulary handler\<close>

text \<open>\<^verbatim>\<open>(pair) => pair.arabic && pair.english\<close>\<close>

definition pair_present :: "('n, 'x) platform_scheme \<Rightarrow> 'n json \<Rightarrow> bool option" where
  "pair_present P pair =
     (case getProp (Some pair) (ascii ''arabic'') of
        Inl e \<Rightarrow> None
      | Inr a \<Rightarrow>
          if truthy P a then
            (case getProp (Some pair) (ascii ''english'') of
               Inl e \<Rightarrow> None
             | Inr e \<Rightarrow> Some (truthy P e))
          else Some False)"

text \<open>
  \<^verbatim>\<open>(pair) => ({arabic: String(pair.arabic).trim(), english: String(pair.english).trim()})\<close>
\<close>

definition pair_strings :: "('n, 'x) platform_scheme \<Rightarrow> 'n json \<Rightarrow> word_pair option" where
  "pair_strings P pair =
     (case getProp (Some pair) (ascii ''arabic'') of
        Inl e \<Rightarrow> None
      | Inr a \<Rightarrow>
          (case String_of P a of
             None \<Rightarrow> None
           | Some sa \<Rightarrow>
               (case getProp (Some pair) (ascii ''english'') of
                  Inl e \<Rightarrow> None
                | Inr e \<Rightarrow>
                    (case String_of P e of
                       None \<Rightarrow> None
                     | Some se \<Rightarrow> Some \<lparr>wp_arabic = trim sa, wp_english = trim se\<rparr>))))"

text \<open>The chain \<^verbatim>\<open>.filter(...).map(...).filter(...)\<close> of "Filter and validate word pairs".\<close>

definition validate_wordPairs ::
  "('n, 'x) platform_scheme \<Rightarrow> 'n json list \<Rightarrow> word_pair list option" where
  "validate_wordPairs P elems =
     (case filter_throwing (pair_present P) elems of
        None \<Rightarrow> None
      | Some present \<Rightarrow>
          (case map_throwing (pair_strings P) present of
             None \<Rightarrow> None
           | Some pairs \<Rightarrow>
               Some (filter (\<lambda>pair. length (wp_arabic pair) > 0 \<and> length (wp_english pair) > 0)
                       pairs)))"

text \<open>\<^verbatim>\<open>`${normalizeWord(w.arabic)}|${normalizeWord(w.english)}`\<close>\<close>

definition pairKey :: "('n, 'x) platform_scheme \<Rightarrow> word_pair \<Rightarrow> jsstring" where
  "pairKey P pair = normalizeWord P (wp_arabic pair) @ ascii ''|'' @ normalizeWord P (wp_english pair)"

definition existingWordKey :: "('n, 'x) platform_scheme \<Rightarrow> 'n json \<Rightarrow> jsstring option" where
  "existingWordKey P w =
     (case normalizeField P w (ascii ''arabic'') of
        None \<Rightarrow> None
      | Some a \<Rightarrow>
          (case normalizeField P w (ascii ''english'') of
             None \<Rightarrow> None
           | Some e \<Rightarrow> Some (a @ ascii ''|'' @ e)))"

text \<open>
  \<^verbatim>\<open>new Set(existingWords.map(...))\<close>: a TypeError unless \<^verbatim>\<open>existingWords\<close> is an array.
\<close>

definition existingWordsSet :: "('n, 'x) platform_scheme \<Rightarrow> 'n json \<Rightarrow> jsstring set option" where
  "existingWordsSet P existingWords =
     (case existingWords of
        JArr ws \<Rightarrow> map_option set (map_throwing (existingWordKey P) ws)
      | _ \<Rightarrow> None)"

text \<open>
  The body of the inner \<^verbatim>\<open>try\<close>. It returns the filtered \<^verbatim>\<open>wordPairs\<close> and the array the
  filter callback pushes the removed pairs to: the \<^verbatim>\<open>const duplicates\<close> declared inside the
  block.
\<close>

definition extract_wordPairs ::
  "('n, 'x) platform_scheme \<Rightarrow> 'n json \<Rightarrow> 'n json \<Rightarrow> (word_pair list \<times> word_pair list) option" where
  "extract_wordPairs P existingWords content =
     (case reply_array P content of
        None \<Rightarrow> None
      | Some elems \<Rightarrow>
          (case validate_wordPairs P elems of
             None \<Rightarrow> None
           | Some wordPairs \<Rightarrow>
               (case existingWordsSet P existingWords of
                  None \<Rightarrow> None
                | Some existing \<Rightarrow>
                    Some (filter (\<lambda>pair. pairKey P pair \<notin> existing) wordPairs,
                          filter (\<lambda>pair. pairKey P pair \<in> existing) wordPairs))))"

text \<open>
  From \<^verbatim>\<open>let wordPairs = []; let duplicates = [];\<close> to the final response. The response
  reads the outer \<^verbatim>\<open>duplicates\<close>, which nothing assigns: the block's own declaration
  shadows it.
\<close>

definition respond_wordPairs ::
  "('n, 'x) platform_scheme \<Rightarrow> 'n json \<Rightarrow> 'n json \<Rightarrow> 'n json \<Rightarrow> 'n response" where
  "respond_wordPairs P existingWords content model =
     (let duplicates = [] in
      case extract_wordPairs P existingWords content of
        None \<Rightarrow>
          Json 500 (ErrorRaw (ascii ''Failed to parse extracted word pairs. The AI response was not in the expected format.'') content)
      | Some (wordPairs, block_duplicates) \<Rightarrow>
          Json 200 (WordPairs wordPairs duplicates model))"

text \<open>The outer \<^verbatim>\<open>catch\<close>.\<close>

definition failure_response :: "jsstring \<Rightarrow> exn \<Rightarrow> 'n response" where
  "failure_response fallback e =
     Json 500 (ErrorOnly (case e of
                            Error m \<Rightarrow> Text m
                          | EngineError \<Rightarrow> EngineMessage
                          | NonError \<Rightarrow> Text fallback))"

definition startsWith :: "jsstring \<Rightarrow> jsstring \<Rightarrow> bool" where
  "startsWith s prefix = (take (length prefix) s = prefix)"

text \<open>
  From the \<^verbatim>\<open>fetch\<close> to the response, shared by the two handlers up to the function that
  reads the content.
\<close>

definition after_fetch ::
  "('n, 'x) platform_scheme \<Rightarrow> jsstring \<Rightarrow> 'n fetch_result \<Rightarrow> jsstring
     \<Rightarrow> ('n json \<Rightarrow> 'n json \<Rightarrow> 'n response) \<Rightarrow> 'n response" where
  "after_fetch P fallback result model respond =
     (case result of
        FetchRejected \<Rightarrow> failure_response fallback EngineError
      | FetchResponse ok status statusText parsed \<Rightarrow>
          if \<not> ok then failure_response fallback (api_failure P status statusText parsed)
          else
            (case parsed of
               None \<Rightarrow> failure_response fallback EngineError
             | Some data \<Rightarrow>
                 (case reply_content P data of
                    Inl e \<Rightarrow> failure_response fallback e
                  | Inr content \<Rightarrow>
                      respond content
                        (or_else P (getPropOpt (Some data) (ascii ''model'')) (JStr model)))))"

text \<open>
  The handler \<^verbatim>\<open>POST\<close> of the vocabulary route. The text of the built-in prompt is the
  parameter \<open>basePrompt\<close>. The result is the trace of outside calls and the response.
\<close>

definition POST_vocabulary ::
  "('n, 'x) platform_scheme \<Rightarrow> jsstring \<Rightarrow> ('n, 'y) world_scheme \<Rightarrow> effect list \<times> 'n response" where
  "POST_vocabulary P basePrompt W =
     (let fallback = ascii ''Failed to parse vocabulary image'' in
      if \<not> requireAdmin W then ([RequireAdmin], Json 401 (ErrorOnly (Text (ascii ''Unauthorized''))))
      else
        (case formData W of
           None \<Rightarrow> ([RequireAdmin, ReadFormData], failure_response fallback EngineError)
         | Some fd \<Rightarrow>
             (case f_image fd of
                None \<Rightarrow>
                  ([RequireAdmin, ReadFormData],
                   Json 400 (ErrorOnly (Text (ascii ''No image file provided''))))
              | Some file \<Rightarrow>
                  if \<not> startsWith (file_type file) (ascii ''image/'') then
                    ([RequireAdmin, ReadFormData],
                     Json 400 (ErrorOnly (Text (ascii ''File must be an image''))))
                  else
                    (let existingWords = parse_existing P (f_existingWords fd);
                         base64Image = base64 P (file_bytes file);
                         mimeType = file_type file
                     in case getOpenRouterConfig W of
                          None \<Rightarrow>
                            ([RequireAdmin, ReadFormData, GetOpenRouterConfig],
                             Json 500 (ErrorOnly (Text (ascii ''OpenRouter API key not configured''))))
                        | Some config \<Rightarrow>
                            (case apiKey config of
                               None \<Rightarrow>
                                 ([RequireAdmin, ReadFormData, GetOpenRouterConfig],
                                  Json 500 (ErrorOnly (Text (ascii ''OpenRouter API key not configured''))))
                             | Some key \<Rightarrow>
                                 if key = [] then
                                   ([RequireAdmin, ReadFormData, GetOpenRouterConfig],
                                    Json 500 (ErrorOnly (Text (ascii ''OpenRouter API key not configured''))))
                                 else
                                   (let model = choose_model (f_model fd) (supportedModels config);
                                        text = promptText (f_customPrompt fd) basePrompt;
                                        request = chat_completion W key model
                                                    (messages text mimeType base64Image)
                                    in ([RequireAdmin, ReadFormData, GetOpenRouterConfig, Fetch request],
                                        after_fetch P fallback (fetch W) model
                                          (respond_wordPairs P existingWords))))))))"


subsection \<open>The conversation handler\<close>

text \<open>\<^verbatim>\<open>(s) => s.arabic\<close>\<close>

definition sentence_present :: "('n, 'x) platform_scheme \<Rightarrow> 'n json \<Rightarrow> bool option" where
  "sentence_present P s =
     (case getProp (Some s) (ascii ''arabic'') of
        Inl e \<Rightarrow> None
      | Inr a \<Rightarrow> Some (truthy P a))"

text \<open>
  \<^verbatim>\<open>(s) => ({arabic: String(s.arabic).trim(),
             english: s.english ? String(s.english).trim() : undefined})\<close>
\<close>

definition sentence_strings :: "('n, 'x) platform_scheme \<Rightarrow> 'n json \<Rightarrow> sentence option" where
  "sentence_strings P s =
     (case getProp (Some s) (ascii ''arabic'') of
        Inl e \<Rightarrow> None
      | Inr a \<Rightarrow>
          (case String_of P a of
             None \<Rightarrow> None
           | Some sa \<Rightarrow>
               (case getProp (Some s) (ascii ''english'') of
                  Inl e \<Rightarrow> None
                | Inr e \<Rightarrow>
                    if truthy P e then
                      (case String_of P e of
                         None \<Rightarrow> None
                       | Some se \<Rightarrow> Some \<lparr>sn_arabic = trim sa, sn_english = Some (trim se)\<rparr>)
                    else Some \<lparr>sn_arabic = trim sa, sn_english = None\<rparr>)))"

definition validate_sentences ::
  "('n, 'x) platform_scheme \<Rightarrow> 'n json list \<Rightarrow> sentence list option" where
  "validate_sentences P elems =
     (case filter_throwing (sentence_present P) elems of
        None \<Rightarrow> None
      | Some present \<Rightarrow>
          (case map_throwing (sentence_strings P) present of
             None \<Rightarrow> None
           | Some sentences \<Rightarrow> Some (filter (\<lambda>s. length (sn_arabic s) > 0) sentences)))"

text \<open>\<^verbatim>\<open>new Set(existingSentences.map((s) => normalizeText(s.arabic)))\<close>\<close>

definition existingSentencesSet ::
  "('n, 'x) platform_scheme \<Rightarrow> 'n json \<Rightarrow> jsstring set option" where
  "existingSentencesSet P existingSentences =
     (case existingSentences of
        JArr ss \<Rightarrow> map_option set (map_throwing (\<lambda>s. normalizeField P s (ascii ''arabic'')) ss)
      | _ \<Rightarrow> None)"

text \<open>
  The body of the inner \<^verbatim>\<open>try\<close>: the filtered \<^verbatim>\<open>sentences\<close> and the outer \<^verbatim>\<open>duplicates\<close>,
  which this block assigns and fills.
\<close>

definition extract_sentences ::
  "('n, 'x) platform_scheme \<Rightarrow> 'n json \<Rightarrow> 'n json \<Rightarrow> (sentence list \<times> sentence list) option" where
  "extract_sentences P existingSentences content =
     (case reply_array P content of
        None \<Rightarrow> None
      | Some elems \<Rightarrow>
          (case validate_sentences P elems of
             None \<Rightarrow> None
           | Some sentences \<Rightarrow>
               (case existingSentencesSet P existingSentences of
                  None \<Rightarrow> None
                | Some existing \<Rightarrow>
                    Some (filter (\<lambda>s. normalizeWord P (sn_arabic s) \<notin> existing) sentences,
                          filter (\<lambda>s. normalizeWord P (sn_arabic s) \<in> existing) sentences))))"

definition respond_sentences ::
  "('n, 'x) platform_scheme \<Rightarrow> 'n json \<Rightarrow> 'n json \<Rightarrow> 'n json \<Rightarrow> 'n response" where
  "respond_sentences P existingSentences content model =
     (case extract_sentences P existingSentences content of
        None \<Rightarrow>
          Json 500 (ErrorRaw (ascii ''Failed to parse extracted sentences. The AI response was not in the expected format.'') content)
      | Some (sentences, duplicates) \<Rightarrow>
          Json 200 (Sentences sentences duplicates model))"

text \<open>
  The vocabulary of the unit, appended to the instructions: at most 100 lines
  \<^verbatim>\<open>  - "arabic" = "english"\<close> between two fixed paragraphs, or nothing when the unit has no
  vocabulary lesson or no word.
\<close>

definition vocabularyContext :: "lesson list \<Rightarrow> vocabulary_row list \<Rightarrow> jsstring" where
  "vocabularyContext unitLessons vocabWords =
     (if length unitLessons > 0 \<and> length vocabWords > 0 then
        (let vocabList =
               join [0xA]
                 (map (\<lambda>w. ascii ''  - '' @ [0x22] @ row_arabic w @ [0x22] @ ascii '' = ''
                           @ [0x22] @ row_english w @ [0x22])
                    (take 100 vocabWords))
         in [0xA, 0xA]
            @ ascii ''IMPORTANT: Use the following vocabulary from this unit to help translate the Arabic sentences accurately:''
            @ [0xA] @ vocabList @ [0xA, 0xA]
            @ ascii ''When translating Arabic sentences, prioritize using these vocabulary words and their meanings. If a sentence contains words from this vocabulary list, use the exact English translations provided.'')
      else [])"

text \<open>
  The handler \<^verbatim>\<open>POST\<close> of the conversation route. The fixed text of the built-in prompt
  is the parameter \<open>instructions\<close>; the built-in prompt is that text followed by the
  vocabulary context.
\<close>

definition POST_conversation ::
  "('n, 'x) platform_scheme \<Rightarrow> jsstring \<Rightarrow> ('n, 'y) world_scheme \<Rightarrow> effect list \<times> 'n response" where
  "POST_conversation P instructions W =
     (let fallback = ascii ''Failed to parse conversation image'' in
      if \<not> requireAdmin W then ([RequireAdmin], Json 401 (ErrorOnly (Text (ascii ''Unauthorized''))))
      else
        (case formData W of
           None \<Rightarrow> ([RequireAdmin, ReadFormData], failure_response fallback EngineError)
         | Some fd \<Rightarrow>
             (case f_image fd of
                None \<Rightarrow>
                  ([RequireAdmin, ReadFormData],
                   Json 400 (ErrorOnly (Text (ascii ''No image file provided''))))
              | Some file \<Rightarrow>
                  (case (case f_lessonId fd of None \<Rightarrow> None | Some s \<Rightarrow> if s = [] then None else Some s) of
                     None \<Rightarrow>
                       ([RequireAdmin, ReadFormData],
                        Json 400 (ErrorOnly (Text (ascii ''Lesson ID is required''))))
                   | Some lessonIdStr \<Rightarrow>
                       (case parseInt P lessonIdStr of
                          None \<Rightarrow>
                            ([RequireAdmin, ReadFormData],
                             Json 400 (ErrorOnly (Text (ascii ''Invalid lesson ID''))))
                        | Some lessonId \<Rightarrow>
                            if \<not> startsWith (file_type file) (ascii ''image/'') then
                              ([RequireAdmin, ReadFormData],
                               Json 400 (ErrorOnly (Text (ascii ''File must be an image''))))
                            else
                              (let existingSentences = parse_existing P (f_existingSentences fd) in
                               case db_lesson W lessonId of
                                 None \<Rightarrow>
                                   ([RequireAdmin, ReadFormData, SelectLesson lessonId],
                                    Json 404 (ErrorOnly (Text (ascii ''Lesson not found''))))
                               | Some lesson \<Rightarrow>
                                   (let unitLessons = db_vocabulary_lessons W (lesson_unitId lesson);
                                        lessonIds = map lesson_id unitLessons;
                                        vocabWords =
                                          (if length unitLessons > 0 then db_vocabulary_words W lessonIds
                                           else []);
                                        queries =
                                          [RequireAdmin, ReadFormData, SelectLesson lessonId,
                                           SelectVocabularyLessons (lesson_unitId lesson)]
                                          @ (if length unitLessons > 0 then [SelectVocabularyWords lessonIds]
                                             else [])
                                          @ [GetOpenRouterConfig];
                                        base64Image = base64 P (file_bytes file);
                                        mimeType = file_type file
                                    in case getOpenRouterConfig W of
                                         None \<Rightarrow>
                                           (queries,
                                            Json 500 (ErrorOnly (Text (ascii ''OpenRouter API key not configured''))))
                                       | Some config \<Rightarrow>
                                           (case apiKey config of
                                              None \<Rightarrow>
                                                (queries,
                                                 Json 500 (ErrorOnly (Text (ascii ''OpenRouter API key not configured''))))
                                            | Some key \<Rightarrow>
                                                if key = [] then
                                                  (queries,
                                                   Json 500 (ErrorOnly (Text (ascii ''OpenRouter API key not configured''))))
                                                else
                                                  (let model = choose_model (f_model fd) (supportedModels config);
                                                       basePrompt = instructions
                                                                    @ vocabularyContext unitLessons vocabWords;
                                                       text = promptText (f_customPrompt fd) basePrompt;
                                                       request = chat_completion W key model
                                                                   (messages text mimeType base64Image)
                                                   in (queries @ [Fetch request],
                                                       after_fetch P fallback (fetch W) model
                                                         (respond_sentences P existingSentences)))))))))))"

section \<open>The learner pages\<close>

text \<open>
  A page is a server component: it reads the session, may fetch data, and either renders
  or leaves through \<^verbatim>\<open>redirect\<close> or \<^verbatim>\<open>notFound\<close>, which do not return.
\<close>

record book =
  book_id :: int
  book_title :: jsstring

record unit_row =
  unit_id :: int
  unit_bookId :: int
  unit_title :: jsstring

record 's site =
  getSession :: "'s option"
  getBooks :: "book list"
  getBookById :: "int \<Rightarrow> book option"
  getUnitsByBook :: "int \<Rightarrow> unit_row list"
  getUnitById :: "int \<Rightarrow> unit_row option"
  getLessonsByUnit :: "int \<Rightarrow> lesson list"

datatype page_effect =
    GetSession
  | GetBooks
  | GetBookById int
  | GetUnitsByBook int
  | GetUnitById int
  | GetLessonsByUnit int

datatype view =
    BooksView "book list"
  | BookView book "unit_row list"
  | UnitView unit_row "lesson list" "book option"

datatype page_result = Redirect jsstring | NotFound | Rendered view

definition BooksPage :: "('s, 'y) site_scheme \<Rightarrow> page_effect list \<times> page_result" where
  "BooksPage S =
     (case getSession S of
        None \<Rightarrow> ([GetSession], Redirect (ascii ''/login''))
      | Some session \<Rightarrow> ([GetSession, GetBooks], Rendered (BooksView (getBooks S))))"

definition BookDetailPage ::
  "('n, 'x) platform_scheme \<Rightarrow> ('s, 'y) site_scheme \<Rightarrow> jsstring \<Rightarrow> page_effect list \<times> page_result" where
  "BookDetailPage P S id_param =
     (case getSession S of
        None \<Rightarrow> ([GetSession], Redirect (ascii ''/login''))
      | Some session \<Rightarrow>
          (case parseInt P id_param of
             None \<Rightarrow> ([GetSession], NotFound)
           | Some bookId \<Rightarrow>
               (case getBookById S bookId of
                  None \<Rightarrow> ([GetSession, GetBookById bookId, GetUnitsByBook bookId], NotFound)
                | Some b \<Rightarrow>
                    ([GetSession, GetBookById bookId, GetUnitsByBook bookId],
                     Rendered (BookView b (getUnitsByBook S bookId))))))"

definition UnitDetailPage ::
  "('n, 'x) platform_scheme \<Rightarrow> ('s, 'y) site_scheme \<Rightarrow> jsstring \<Rightarrow> page_effect list \<times> page_result" where
  "UnitDetailPage P S id_param =
     (case getSession S of
        None \<Rightarrow> ([GetSession], Redirect (ascii ''/login''))
      | Some session \<Rightarrow>
          (case parseInt P id_param of
             None \<Rightarrow> ([GetSession], NotFound)
           | Some unitId \<Rightarrow>
               (case getUnitById S unitId of
                  None \<Rightarrow> ([GetSession, GetUnitById unitId, GetLessonsByUnit unitId], NotFound)
                | Some u \<Rightarrow>
                    ([GetSession, GetUnitById unitId, GetLessonsByUnit unitId,
                      GetBookById (unit_bookId u)],
                     Rendered (UnitView u (getLessonsByUnit S unitId)
                                 (getBookById S (unit_bookId u)))))))"


section \<open>The flashcard component\<close>

record VocabularyWord =
  w_id :: int
  w_arabic :: jsstring
  w_english :: jsstring

datatype Mode = Learn | Practice | Test

text \<open>
  The component's state. A \<^verbatim>\<open>Record<number, T>\<close> is an association list with one entry
  per key, written with \<open>AList.update\<close> and read with \<open>map_of\<close>. The learner's progress,
  kept by the server actions, is outside this state.
\<close>

record flashcards =
  mode :: Mode
  currentIndex :: int
  isFlipped :: bool
  testAnswers :: "(int \<times> jsstring) list"
  testOptions :: "(int \<times> jsstring list) list"
  testResults :: "(int \<times> bool) list"
  testSubmitted :: bool

definition initial_flashcards :: flashcards where
  "initial_flashcards =
     \<lparr>mode = Learn, currentIndex = 0, isFlipped = False, testAnswers = [], testOptions = [],
      testResults = [], testSubmitted = False\<rparr>"

text \<open>
  \<^verbatim>\<open>sort(() => Math.random() - 0.5)\<close> is a parameter: a function on lists, one for each
  of the two calls. What the engines guarantee of it is that the result holds the same
  elements: \<open>is_shuffle\<close>.
\<close>

definition is_shuffle :: "('a list \<Rightarrow> 'a list) \<Rightarrow> bool" where
  "is_shuffle f \<longleftrightarrow> (\<forall>xs. mset (f xs) = mset xs)"

definition generateMultipleChoiceOptions ::
  "(jsstring list \<Rightarrow> jsstring list) \<Rightarrow> (jsstring list \<Rightarrow> jsstring list)
     \<Rightarrow> jsstring \<Rightarrow> VocabularyWord list \<Rightarrow> int \<Rightarrow> jsstring list" where
  "generateMultipleChoiceOptions shuffle1 shuffle2 correctAnswer allWords currentWordId =
     (let distractors = map w_english (filter (\<lambda>word. w_id word \<noteq> currentWordId) allWords);
          shuffled = shuffle1 distractors;
          selectedDistractors = take 3 shuffled;
          options = correctAnswer # selectedDistractors
      in shuffle2 options)"

definition handleNext :: "VocabularyWord list \<Rightarrow> flashcards \<Rightarrow> flashcards" where
  "handleNext words st =
     (if currentIndex st < int (length words) - 1
      then st\<lparr>currentIndex := currentIndex st + 1, isFlipped := False\<rparr>
      else st)"

definition handlePrevious :: "flashcards \<Rightarrow> flashcards" where
  "handlePrevious st =
     (if currentIndex st > 0
      then st\<lparr>currentIndex := currentIndex st - 1, isFlipped := False\<rparr>
      else st)"

definition handleFlip :: "flashcards \<Rightarrow> flashcards" where
  "handleFlip st = st\<lparr>isFlipped := \<not> isFlipped st\<rparr>"

definition handleTestAnswer :: "int \<Rightarrow> jsstring \<Rightarrow> flashcards \<Rightarrow> flashcards" where
  "handleTestAnswer wordId answer st =
     st\<lparr>testAnswers := AList.update wordId answer (testAnswers st)\<rparr>"

text \<open>\<^verbatim>\<open>testAnswers[word.id]?.trim() || ""\<close>\<close>

definition given_answer :: "(int \<times> jsstring) list \<Rightarrow> VocabularyWord \<Rightarrow> jsstring" where
  "given_answer answers word =
     (case map_of answers (w_id word) of
        None \<Rightarrow> []
      | Some a \<Rightarrow> if trim a \<noteq> [] then trim a else [])"

definition handleTestSubmit :: "VocabularyWord list \<Rightarrow> flashcards \<Rightarrow> flashcards" where
  "handleTestSubmit words st =
     st\<lparr>testResults :=
          foldl (\<lambda>results word.
                   (let answer = given_answer (testAnswers st) word;
                        correct = (answer = w_english word)
                    in AList.update (w_id word) correct results))
            [] words,
        testSubmitted := True\<rparr>"

definition handleTestReset :: "flashcards \<Rightarrow> flashcards" where
  "handleTestReset st =
     st\<lparr>testAnswers := [], testOptions := [], testResults := [], testSubmitted := False,
        currentIndex := 0\<rparr>"

text \<open>The three mode buttons.\<close>

definition selectMode :: "Mode \<Rightarrow> flashcards \<Rightarrow> flashcards" where
  "selectMode m st =
     (case m of
        Test \<Rightarrow>
          st\<lparr>mode := Test, isFlipped := False, testSubmitted := False, testAnswers := [],
             testOptions := [], testResults := []\<rparr>
      | _ \<Rightarrow> st\<lparr>mode := m, isFlipped := False, testSubmitted := False\<rparr>)"

text \<open>
  The effect that fills \<^verbatim>\<open>testOptions\<close> on entering test mode, once, for every word.
\<close>

definition generateTestOptions ::
  "(jsstring list \<Rightarrow> jsstring list) \<Rightarrow> (jsstring list \<Rightarrow> jsstring list)
     \<Rightarrow> VocabularyWord list \<Rightarrow> flashcards \<Rightarrow> flashcards" where
  "generateTestOptions shuffle1 shuffle2 words st =
     (if mode st = Test \<and> length words > 0 \<and> length (testOptions st) = 0 then
        st\<lparr>testOptions :=
             foldl (\<lambda>options word.
                      AList.update (w_id word)
                        (generateMultipleChoiceOptions shuffle1 shuffle2 (w_english word) words
                           (w_id word))
                        options)
               [] words\<rparr>
      else st)"

text \<open>
  The operations on the state. The two practice buttons call
  \<^verbatim>\<open>handlePracticeAnswer\<close>, which only reports to the server, then \<^verbatim>\<open>handleNext\<close> and
  \<^verbatim>\<open>setIsFlipped(false)\<close>.
\<close>

datatype event =
    Next
  | Previous
  | Flip
  | TestAnswer int jsstring
  | TestSubmit
  | TestReset
  | PracticeButton bool
  | ModeButton Mode
  | OptionsEffect

definition step ::
  "(jsstring list \<Rightarrow> jsstring list) \<Rightarrow> (jsstring list \<Rightarrow> jsstring list)
     \<Rightarrow> VocabularyWord list \<Rightarrow> flashcards \<Rightarrow> event \<Rightarrow> flashcards" where
  "step shuffle1 shuffle2 words st ev =
     (case ev of
        Next \<Rightarrow> handleNext words st
      | Previous \<Rightarrow> handlePrevious st
      | Flip \<Rightarrow> handleFlip st
      | TestAnswer wordId answer \<Rightarrow> handleTestAnswer wordId answer st
      | TestSubmit \<Rightarrow> handleTestSubmit words st
      | TestReset \<Rightarrow> handleTestReset st
      | PracticeButton correct \<Rightarrow> (handleNext words st)\<lparr>isFlipped := False\<rparr>
      | ModeButton m \<Rightarrow> selectMode m st
      | OptionsEffect \<Rightarrow> generateTestOptions shuffle1 shuffle2 words st)"

definition run ::
  "(jsstring list \<Rightarrow> jsstring list) \<Rightarrow> (jsstring list \<Rightarrow> jsstring list)
     \<Rightarrow> VocabularyWord list \<Rightarrow> event list \<Rightarrow> flashcards" where
  "run shuffle1 shuffle2 words evs = foldl (step shuffle1 shuffle2 words) initial_flashcards evs"

text \<open>\<^verbatim>\<open>const currentWord = words[currentIndex]\<close>; \<open>None\<close> is \<^verbatim>\<open>undefined\<close>.\<close>

definition currentWord :: "VocabularyWord list \<Rightarrow> flashcards \<Rightarrow> VocabularyWord option" where
  "currentWord words st =
     (if 0 \<le> currentIndex st \<and> currentIndex st < int (length words)
      then Some (words ! nat (currentIndex st))
      else None)"

text \<open>
  \<^verbatim>\<open>Object.values(testResults).filter(r => r).length\<close> and \<^verbatim>\<open>words.length\<close>, the two
  numbers of the displayed score.
\<close>

definition correctCount :: "flashcards \<Rightarrow> nat" where
  "correctCount st = length (filter (\<lambda>r. r) (map snd (testResults st)))"

definition totalWords :: "VocabularyWord list \<Rightarrow> nat" where
  "totalWords words = length words"

text \<open>\<^verbatim>\<open>testResults[word.id]\<close> as the result list tests it: a missing entry is falsy.\<close>

definition marked_correct :: "flashcards \<Rightarrow> VocabularyWord \<Rightarrow> bool" where
  "marked_correct st word = (map_of (testResults st) (w_id word) = Some True)"

text \<open>
  The test of the Submit button's \<^verbatim>\<open>disabled\<close>:
  \<^verbatim>\<open>Object.keys(testAnswers).length < words.length\<close>.
\<close>

definition submitDisabled :: "VocabularyWord list \<Rightarrow> flashcards \<Rightarrow> bool" where
  "submitDisabled words st \<longleftrightarrow> length (testAnswers st) < length words"

text \<open>
  The events the rendered component can produce: the radio buttons that call
  \<^verbatim>\<open>handleTestAnswer(word.id, ...)\<close> are rendered for the words of the list only.
\<close>

definition offered :: "VocabularyWord list \<Rightarrow> event \<Rightarrow> bool" where
  "offered words ev =
     (case ev of
        TestAnswer wordId answer \<Rightarrow> wordId \<in> set (map w_id words)
      | _ \<Rightarrow> True)"

section \<open>The conversation display\<close>

record ConversationSentence =
  cs_id :: int
  cs_arabic :: jsstring
  cs_english :: "jsstring option"
  cs_order :: int

datatype Language = Arabic | English

text \<open>
  \<^verbatim>\<open>[...sentences].sort((a, b) => a.order - b.order)\<close>: a stable sort on the order field.
\<close>

definition sortedSentences :: "ConversationSentence list \<Rightarrow> ConversationSentence list" where
  "sortedSentences sentences = sort_key cs_order sentences"

text \<open>The filter of \<^verbatim>\<open>handlePlayAll\<close>.\<close>

definition playable :: "Language \<Rightarrow> ConversationSentence \<Rightarrow> bool" where
  "playable selectedLanguage s =
     (case selectedLanguage of
        Arabic \<Rightarrow> cs_arabic s \<noteq> [] \<and> length (trim (cs_arabic s)) > 0
      | English \<Rightarrow>
          (case cs_english s of
             None \<Rightarrow> False
           | Some e \<Rightarrow> e \<noteq> [] \<and> length (trim e) > 0))"

definition sentence_text :: "Language \<Rightarrow> ConversationSentence \<Rightarrow> jsstring" where
  "sentence_text selectedLanguage sentence =
     (case selectedLanguage of
        Arabic \<Rightarrow> cs_arabic sentence
      | English \<Rightarrow> (case cs_english sentence of None \<Rightarrow> [] | Some e \<Rightarrow> e))"

definition language_tag :: "Language \<Rightarrow> jsstring" where
  "language_tag selectedLanguage =
     (case selectedLanguage of Arabic \<Rightarrow> ascii ''ar-SA'' | English \<Rightarrow> ascii ''en-US'')"

text \<open>
  The callback \<^verbatim>\<open>playSentenceSequentially(playableSentences, index)\<close> gives to \<^verbatim>\<open>playAudio\<close>
  as \<^verbatim>\<open>onEnd\<close>: a closure over the list and the index.
\<close>

datatype callback = PlayNext "ConversationSentence list" nat

text \<open>
  The utterance \<^verbatim>\<open>speak\<close> builds: its text, its language and the callback set as \<^verbatim>\<open>onend\<close>
  and \<^verbatim>\<open>onerror\<close>. Rate, pitch, volume and the chosen voice are left out.
\<close>

record utterance =
  u_text :: jsstring
  u_lang :: jsstring
  u_onEnd :: "callback option"

text \<open>
  The state and refs of the playback, and the part of the browser it talks to:
  \<open>timeoutRef\<close> is the pending timer with the callback that set it;
  \<open>speechSynthesis\<close> tells whether \<^verbatim>\<open>window.speechSynthesis\<close> exists;
  \<open>voices\<close> is \<^verbatim>\<open>getVoices().length\<close>;
  \<open>onvoiceschanged\<close> is the handler \<^verbatim>\<open>playAudio\<close> installed, with the utterance its
  \<^verbatim>\<open>speak\<close> will make;
  \<open>speaking\<close> is the utterance given to \<^verbatim>\<open>speechSynthesis.speak\<close> that has not ended;
  \<open>spoken\<close> lists the utterances given to \<^verbatim>\<open>speechSynthesis.speak\<close>, text and language
  tag, oldest first.
\<close>

record player =
  isPlayingAll :: bool
  playingSentenceId :: "int option"
  currentPlayAllIndex :: nat
  playAllQueue :: "int list"
  shouldContinuePlaying :: bool
  timeoutRef :: "callback option"
  speechSynthesis :: bool
  voices :: nat
  onvoiceschanged :: "utterance option"
  speaking :: "utterance option"
  spoken :: "(jsstring \<times> jsstring) list"

definition initial_player :: "bool \<Rightarrow> nat \<Rightarrow> player" where
  "initial_player synthesis n =
     \<lparr>isPlayingAll = False, playingSentenceId = None, currentPlayAllIndex = 0,
      playAllQueue = [], shouldContinuePlaying = False, timeoutRef = None,
      speechSynthesis = synthesis, voices = n, onvoiceschanged = None, speaking = None,
      spoken = []\<rparr>"

text \<open>
  \<^verbatim>\<open>window.speechSynthesis.speak(utterance)\<close> and \<^verbatim>\<open>window.speechSynthesis?.cancel()\<close>.
  What the browser reports for a cancelled utterance is left out.
\<close>

definition speak :: "utterance \<Rightarrow> player \<Rightarrow> player" where
  "speak u st = st\<lparr>speaking := Some u, spoken := spoken st @ [(u_text u, u_lang u)]\<rparr>"

definition cancel :: "player \<Rightarrow> player" where
  "cancel st = (if speechSynthesis st then st\<lparr>speaking := None\<rparr> else st)"

text \<open>
  \<^verbatim>\<open>playAudio(text, lang, onEnd)\<close>: nothing without speech synthesis; otherwise cancel, and
  speak at once when voices are loaded, or when the voices change.
\<close>

definition playAudio :: "jsstring \<Rightarrow> jsstring \<Rightarrow> callback option \<Rightarrow> player \<Rightarrow> player" where
  "playAudio text lang onEnd st =
     (if \<not> speechSynthesis st then st
      else
        (let st1 = cancel st;
             u = \<lparr>u_text = text, u_lang = lang, u_onEnd = onEnd\<rparr>
         in if voices st1 = 0 then st1\<lparr>onvoiceschanged := Some u\<rparr>
            else speak u st1))"

text \<open>
  \<^verbatim>\<open>playSentenceSequentially(playableSentences, index)\<close>, up to its return: the next call
  is made by the timer of the callback.
\<close>

definition playSentenceSequentially ::
  "Language \<Rightarrow> ConversationSentence list \<Rightarrow> nat \<Rightarrow> player \<Rightarrow> player" where
  "playSentenceSequentially selectedLanguage playableSentences index st =
     (if \<not> shouldContinuePlaying st then st
      else if index \<ge> length playableSentences then
        st\<lparr>isPlayingAll := False, playingSentenceId := None, currentPlayAllIndex := 0,
           playAllQueue := [], shouldContinuePlaying := False\<rparr>
      else
        (let sentence = playableSentences ! index;
             st1 = st\<lparr>playingSentenceId := Some (cs_id sentence), currentPlayAllIndex := index\<rparr>;
             text = sentence_text selectedLanguage sentence;
             lang = language_tag selectedLanguage
         in playAudio text lang (Some (PlayNext playableSentences index)) st1))"

text \<open>
  The callback when the utterance ends or fails: unless the playback was stopped, it
  replaces the pending timer by one of 300 ms.
\<close>

definition onEnd :: "callback \<Rightarrow> player \<Rightarrow> player" where
  "onEnd cb st = (if \<not> shouldContinuePlaying st then st else st\<lparr>timeoutRef := Some cb\<rparr>)"

text \<open>The timer's function.\<close>

definition onTimeout :: "Language \<Rightarrow> callback \<Rightarrow> player \<Rightarrow> player" where
  "onTimeout selectedLanguage cb st =
     (case cb of
        PlayNext playableSentences index \<Rightarrow>
          (if shouldContinuePlaying st
           then playSentenceSequentially selectedLanguage playableSentences (index + 1) st
           else st)\<lparr>timeoutRef := None\<rparr>)"

text \<open>\<^verbatim>\<open>handlePlayAll\<close>: a second press while playing stops the playback.\<close>

definition handlePlayAll :: "Language \<Rightarrow> ConversationSentence list \<Rightarrow> player \<Rightarrow> player" where
  "handlePlayAll selectedLanguage sentences st =
     (if isPlayingAll st then
        (cancel (st\<lparr>shouldContinuePlaying := False\<rparr>))
          \<lparr>timeoutRef := None, isPlayingAll := False, playingSentenceId := None,
           currentPlayAllIndex := 0, playAllQueue := []\<rparr>
      else
        (let playableSentences = filter (playable selectedLanguage) (sortedSentences sentences) in
         if length playableSentences = 0 then st
         else
           playSentenceSequentially selectedLanguage playableSentences 0
             (st\<lparr>shouldContinuePlaying := True, isPlayingAll := True, currentPlayAllIndex := 0,
                 playAllQueue := map cs_id playableSentences\<rparr>)))"

text \<open>
  What the browser does to the component: the voices change to a number of voices, the
  utterance being spoken ends or fails, the pending timer fires. Each runs the handler
  the source registered, if there is one.
\<close>

datatype browser_event = VoicesChanged nat | UtteranceEnded | TimerFired

definition browser :: "Language \<Rightarrow> player \<Rightarrow> browser_event \<Rightarrow> player" where
  "browser selectedLanguage st ev =
     (case ev of
        VoicesChanged n \<Rightarrow>
          (let st1 = st\<lparr>voices := n\<rparr> in
           case onvoiceschanged st1 of
             None \<Rightarrow> st1
           | Some u \<Rightarrow> speak u (st1\<lparr>onvoiceschanged := None\<rparr>))
      | UtteranceEnded \<Rightarrow>
          (case speaking st of
             None \<Rightarrow> st
           | Some u \<Rightarrow>
               (let st1 = st\<lparr>speaking := None\<rparr> in
                case u_onEnd u of None \<Rightarrow> st1 | Some cb \<Rightarrow> onEnd cb st1))
      | TimerFired \<Rightarrow>
          (case timeoutRef st of
             None \<Rightarrow> st
           | Some cb \<Rightarrow> onTimeout selectedLanguage cb st))"

text \<open>
  A browser that does its part: \<open>pending\<close> is the handler it owes a call, and
  \<open>deliver\<close> makes up to \<open>n\<close> such calls, reporting \<open>v\<close> voices when the voices change.
\<close>

definition pending :: "nat \<Rightarrow> player \<Rightarrow> browser_event option" where
  "pending v st =
     (if onvoiceschanged st \<noteq> None then Some (VoicesChanged v)
      else if speaking st \<noteq> None then Some UtteranceEnded
      else if timeoutRef st \<noteq> None then Some TimerFired
      else None)"

fun deliver :: "nat \<Rightarrow> Language \<Rightarrow> nat \<Rightarrow> player \<Rightarrow> player" where
  "deliver 0 selectedLanguage v st = st"
| "deliver (Suc n) selectedLanguage v st =
     (case pending v st of
        None \<Rightarrow> st
      | Some ev \<Rightarrow> deliver n selectedLanguage v (browser selectedLanguage st ev))"

text \<open>The utterances of a complete Play All, in their order.\<close>

definition playAll_utterances ::
  "Language \<Rightarrow> ConversationSentence list \<Rightarrow> (jsstring \<times> jsstring) list" where
  "playAll_utterances selectedLanguage sentences =
     map (\<lambda>s. (sentence_text selectedLanguage s, language_tag selectedLanguage))
       (filter (playable selectedLanguage) (sortedSentences sentences))"

text \<open>
  Where a Play All over the list \<open>ps\<close> stands after \<open>j\<close> utterances: nothing is owed by
  the browser, or the utterance of sentence \<open>j\<close> waits for the voices, or the utterance
  of sentence \<open>j - 1\<close> is being spoken, or its timer is pending.
\<close>

definition sentence_utterance :: "Language \<Rightarrow> ConversationSentence list \<Rightarrow> nat \<Rightarrow> utterance" where
  "sentence_utterance selectedLanguage ps j =
     \<lparr>u_text = sentence_text selectedLanguage (ps ! j),
      u_lang = language_tag selectedLanguage,
      u_onEnd = Some (PlayNext ps j)\<rparr>"

definition playAll_phase :: "Language \<Rightarrow> ConversationSentence list \<Rightarrow> nat \<Rightarrow> player \<Rightarrow> bool" where
  "playAll_phase selectedLanguage ps j st \<longleftrightarrow>
     (onvoiceschanged st = None \<and> speaking st = None \<and> timeoutRef st = None)
     \<or> (j < length ps \<and> onvoiceschanged st = Some (sentence_utterance selectedLanguage ps j)
         \<and> speaking st = None \<and> timeoutRef st = None)
     \<or> (0 < j \<and> onvoiceschanged st = None
         \<and> speaking st = Some (sentence_utterance selectedLanguage ps (j - 1))
         \<and> timeoutRef st = None)
     \<or> (0 < j \<and> onvoiceschanged st = None \<and> speaking st = None
         \<and> timeoutRef st = Some (PlayNext ps (j - 1)))"

definition in_playAll :: "Language \<Rightarrow> ConversationSentence list \<Rightarrow> player \<Rightarrow> bool" where
  "in_playAll selectedLanguage ps st \<longleftrightarrow>
     (\<exists>j\<le>length ps.
        spoken st = map (\<lambda>s. (sentence_text selectedLanguage s, language_tag selectedLanguage))
                      (take j ps)
        \<and> playAll_phase selectedLanguage ps j st)"

section \<open>Concrete inputs\<close>

text \<open>
  A platform for evaluating the handlers on the inputs below. Numbers are represented
  by their decimal text; every function agrees with the runtime's on the strings that
  occur: \<open>toLowerCase\<close> on ASCII, \<open>JSON_parse\<close> on five texts, \<open>base64\<close> on three bytes.
\<close>

text \<open>A string literal of a JSON text.\<close>

definition quoted :: "string \<Rightarrow> jsstring" where
  "quoted s = [0x22] @ ascii s @ [0x22]"

text \<open>
  The texts
  \<^verbatim>\<open>[{"arabic":" Kitab ","english":"Book"},{"arabic":"qalam","english":"pen"},{"english":"ink"}]\<close>,
  \<^verbatim>\<open>[{"arabic":"kitab","english":"book"}]\<close> and \<^verbatim>\<open>[{"english":"ink"}]\<close>, and the values they
  parse to.
\<close>

definition example_reply_text :: jsstring where
  "example_reply_text =
     ascii ''[{'' @ quoted ''arabic'' @ ascii '':'' @ quoted '' Kitab '' @ ascii '','' @
     quoted ''english'' @ ascii '':'' @ quoted ''Book'' @ ascii ''},{'' @ quoted ''arabic'' @
     ascii '':'' @ quoted ''qalam'' @ ascii '','' @ quoted ''english'' @ ascii '':'' @
     quoted ''pen'' @ ascii ''},{'' @ quoted ''english'' @ ascii '':'' @ quoted ''ink'' @
     ascii ''}]''"

definition example_elems :: "jsstring json list" where
  "example_elems =
     [JObj [(ascii ''arabic'', JStr (ascii '' Kitab '')), (ascii ''english'', JStr (ascii ''Book''))],
      JObj [(ascii ''arabic'', JStr (ascii ''qalam'')), (ascii ''english'', JStr (ascii ''pen''))],
      JObj [(ascii ''english'', JStr (ascii ''ink''))]]"

definition example_reply :: "jsstring json" where
  "example_reply = JArr example_elems"

definition example_existing_text :: jsstring where
  "example_existing_text =
     ascii ''[{'' @ quoted ''arabic'' @ ascii '':'' @ quoted ''kitab'' @ ascii '','' @
     quoted ''english'' @ ascii '':'' @ quoted ''book'' @ ascii ''}]''"

definition example_records :: "jsstring json list" where
  "example_records =
     [JObj [(ascii ''arabic'', JStr (ascii ''kitab'')), (ascii ''english'', JStr (ascii ''book''))]]"

definition example_existing :: "jsstring json" where
  "example_existing = JArr example_records"

definition example_entry_text :: jsstring where
  "example_entry_text =
     ascii ''[{'' @ quoted ''english'' @ ascii '':'' @ quoted ''ink'' @ ascii ''}]''"

definition example_entry :: "jsstring json" where
  "example_entry = JObj [(ascii ''english'', JStr (ascii ''ink''))]"

definition example_platform :: "jsstring platform" where
  "example_platform =
     \<lparr>toLowerCase = map (\<lambda>c. if 0x41 \<le> c \<and> c \<le> 0x5A then c + 0x20 else c),
      JSON_parse = (\<lambda>s. if s = example_reply_text then Some example_reply
                         else if s = example_existing_text then Some example_existing
                         else if s = ascii ''[null]'' then Some (JArr [JNull])
                         else if s = ascii ''[]'' then Some (JArr [])
                         else if s = example_entry_text then Some (JArr [example_entry])
                         else None),
      Number_falsy = (\<lambda>n. n = ascii ''0''),
      Number_toString = (\<lambda>n. n),
      parseInt = (\<lambda>s. if s = ascii ''7'' then Some 7 else None),
      base64 = (\<lambda>bytes. if bytes = [0x89, 0x50, 0x4E] then ascii ''iVBO'' else [])\<rparr>"

definition example_form :: form where
  "example_form =
     \<lparr>f_image = Some \<lparr>file_type = ascii ''image/png'', file_bytes = [0x89, 0x50, 0x4E]\<rparr>,
      f_model = None,
      f_customPrompt = Some (ascii '' List the words ''),
      f_existingWords = Some example_existing_text,
      f_existingSentences = Some example_existing_text,
      f_lessonId = Some (ascii ''7'')\<rparr>"

definition example_completion :: "jsstring \<Rightarrow> jsstring json" where
  "example_completion content =
     JObj [(ascii ''choices'',
            JArr [JObj [(ascii ''message'', JObj [(ascii ''content'', JStr content)])]])]"

definition example_world :: "jsstring \<Rightarrow> jsstring world" where
  "example_world content =
     \<lparr>requireAdmin = True,
      formData = Some example_form,
      db_lesson = (\<lambda>i. if i = 7 then Some \<lparr>lesson_id = 7, lesson_unitId = 3\<rparr> else None),
      db_vocabulary_lessons = (\<lambda>u. []),
      db_vocabulary_words = (\<lambda>ids. []),
      getOpenRouterConfig = Some \<lparr>apiKey = Some (ascii ''sk-example''), supportedModels = []\<rparr>,
      NEXT_PUBLIC_APP_URL = None,
      NEXT_PUBLIC_APP_NAME = None,
      fetch = FetchResponse True (ascii ''200'') (ascii ''OK'')
                (Some (example_completion content))\<rparr>"


definition example_content :: jsstring where
  "example_content = ascii ''Pairs: '' @ example_reply_text @ ascii '' done''"

definition example_request :: chat_request where
  "example_request =
     \<lparr>req_url = ascii ''https://openrouter.ai/api/v1/chat/completions'',
      req_method = ascii ''POST'',
      req_headers =
        [(ascii ''Content-Type'', ascii ''application/json''),
         (ascii ''Authorization'', ascii ''Bearer sk-example''),
         (ascii ''HTTP-Referer'', ascii ''http://localhost:3000''),
         (ascii ''X-Title'', ascii ''TaskFlow'')],
      body_model = ascii ''openai/gpt-4o'',
      body_messages =
        [\<lparr>msg_role = ascii ''user'',
          msg_content = [TextPart (ascii ''List the words''),
                         ImageUrlPart (ascii ''data:image/png;base64,iVBO'')]\<rparr>],
      body_temperature = 0\<rparr>"

definition example_site :: "unit site" where
  "example_site =
     \<lparr>getSession = None,
      getBooks = [\<lparr>book_id = 1, book_title = ascii ''Book One''\<rparr>],
      getBookById = (\<lambda>i. if i = 1 then Some \<lparr>book_id = 1, book_title = ascii ''Book One''\<rparr> else None),
      getUnitsByBook = (\<lambda>i. []),
      getUnitById = (\<lambda>i. None),
      getLessonsByUnit = (\<lambda>i. [])\<rparr>"

text \<open>A word list and a sentence list.\<close>

definition example_words :: "VocabularyWord list" where
  "example_words =
     [\<lparr>w_id = 1, w_arabic = [0x643, 0x62A, 0x627, 0x628], w_english = ascii ''book''\<rparr>,
      \<lparr>w_id = 2, w_arabic = [0x642, 0x644, 0x645], w_english = ascii ''pen''\<rparr>,
      \<lparr>w_id = 3, w_arabic = [0x628, 0x627, 0x628], w_english = ascii ''door''\<rparr>,
      \<lparr>w_id = 4, w_arabic = [0x628, 0x64A, 0x62A], w_english = ascii ''house''\<rparr>,
      \<lparr>w_id = 5, w_arabic = [0x645, 0x627, 0x621], w_english = ascii ''water''\<rparr>]"

definition example_sentences :: "ConversationSentence list" where
  "example_sentences =
     [\<lparr>cs_id = 10, cs_arabic = [0x645, 0x639, 0x20, 0x627, 0x644, 0x633, 0x644, 0x627, 0x645, 0x629],
       cs_english = Some (ascii ''Goodbye''), cs_order = 2\<rparr>,
      \<lparr>cs_id = 11, cs_arabic = [0x20, 0x20], cs_english = Some (ascii ''(pause)''), cs_order = 0\<rparr>,
      \<lparr>cs_id = 12, cs_arabic = [0x645, 0x631, 0x62D, 0x628, 0x627],
       cs_english = None, cs_order = 1\<rparr>]"

text \<open>The same request without a custom prompt, and with a blank one.\<close>

definition example_plain_world :: "jsstring world" where
  "example_plain_world =
     (example_world example_content)\<lparr>formData := Some (example_form\<lparr>f_customPrompt := None\<rparr>)\<rparr>"

definition example_blank_world :: "jsstring world" where
  "example_blank_world =
     (example_world example_content)
       \<lparr>formData := Some (example_form\<lparr>f_customPrompt := Some (ascii ''   '')\<rparr>)\<rparr>"

definition example_base_request :: chat_request where
  "example_base_request =
     example_request
       \<lparr>body_messages :=
          [\<lparr>msg_role = ascii ''user'',
            msg_content = [TextPart (ascii ''BASE''),
                           ImageUrlPart (ascii ''data:image/png;base64,iVBO'')]\<rparr>]\<rparr>"

text \<open>A test taken to the end: every word gets an answer, the second one twice.\<close>

definition example_events :: "event list" where
  "example_events =
     [ModeButton Test, OptionsEffect,
      TestAnswer 1 (ascii ''book''), TestAnswer 2 (ascii ''door''), TestAnswer 3 (ascii ''door''),
      TestAnswer 4 (ascii ''water''), TestAnswer 2 (ascii ''house''), TestAnswer 5 (ascii ''water'')]"

section \<open>Auxiliary facts\<close>

subsection \<open>Trimming and the throwing list functions\<close>

lemma dropWhile_fixed: "xs = [] \<or> \<not> P (hd xs) \<Longrightarrow> dropWhile P xs = xs"
  by (cases xs) auto

lemma hd_dropWhile_end:
  "rev (dropWhile P (rev xs)) \<noteq> [] \<Longrightarrow> hd (rev (dropWhile P (rev xs))) = hd xs"
proof (induction xs rule: rev_induct)
  case Nil
  then show ?case by simp
next
  case (snoc x xs)
  then show ?case by (cases "P x") (auto simp: hd_append)
qed

lemma trim_idem: "trim (trim s) = trim s"
proof -
  define t where "t = dropWhile isWhiteSpace s"
  define e where "e = rev (dropWhile isWhiteSpace (rev t))"
  have t: "t = [] \<or> \<not> isWhiteSpace (hd t)"
    unfolding t_def using hd_dropWhile[of isWhiteSpace s] by blast
  have "e = [] \<or> \<not> isWhiteSpace (hd e)"
  proof (cases "e = []")
    case True
    then show ?thesis by simp
  next
    case False
    then have "hd e = hd t" unfolding e_def by (rule hd_dropWhile_end)
    moreover have "t \<noteq> []" using False unfolding e_def by auto
    ultimately show ?thesis using t by simp
  qed
  then have "dropWhile isWhiteSpace e = e" by (rule dropWhile_fixed)
  moreover have "trim s = e" by (simp add: trim_def e_def t_def)
  moreover have "rev (dropWhile isWhiteSpace (rev e)) = e" by (simp add: e_def)
  ultimately show ?thesis by (simp add: trim_def)
qed

lemma filter_throwing_Some:
  "filter_throwing p xs = Some ys \<Longrightarrow> ys = filter (\<lambda>x. p x = Some True) xs \<and> (\<forall>x\<in>set xs. p x \<noteq> None)"
  by (induction xs arbitrary: ys) (auto split: option.splits if_splits)

lemma filter_throwing_total:
  "\<forall>x\<in>set xs. p x \<noteq> None \<Longrightarrow> filter_throwing p xs = Some (filter (\<lambda>x. p x = Some True) xs)"
  by (induction xs) (auto split: option.splits)

lemma map_throwing_Some:
  "map_throwing f xs = Some ys \<Longrightarrow> map Some ys = map f xs"
  by (induction xs arbitrary: ys) (auto split: option.splits)

lemma map_throwing_total:
  "\<forall>x\<in>set xs. f x \<noteq> None \<Longrightarrow> map_throwing f xs = Some (map (\<lambda>x. the (f x)) xs)"
  by (induction xs) (auto split: option.splits)

section \<open>The flashcard index\<close>

lemma step_currentIndex:
  assumes "0 \<le> currentIndex st" "currentIndex st \<le> int (length words) - 1"
  shows "0 \<le> currentIndex (step sh1 sh2 words st ev) \<and>
         currentIndex (step sh1 sh2 words st ev) \<le> int (length words) - 1"
  using assms
  by (cases ev)
     (auto simp: step_def handleNext_def handlePrevious_def handleFlip_def handleTestAnswer_def
        handleTestSubmit_def handleTestReset_def selectMode_def generateTestOptions_def
        split: Mode.splits)

lemma run_currentIndex:
  assumes "words \<noteq> []"
  shows "0 \<le> currentIndex (run sh1 sh2 words evs) \<and>
         currentIndex (run sh1 sh2 words evs) \<le> int (length words) - 1"
proof (induction evs rule: rev_induct)
  case Nil
  from assms have "0 < length words" by simp
  then show ?case by (simp add: run_def initial_flashcards_def)
next
  case (snoc ev evs)
  have "run sh1 sh2 words (evs @ [ev]) = step sh1 sh2 words (run sh1 sh2 words evs) ev"
    by (simp add: run_def)
  with snoc step_currentIndex[of "run sh1 sh2 words evs" words sh1 sh2 ev] show ?case
    by simp
qed

text \<open>
  Claim C10. For a non-empty word list, after any sequence of operations of the
  flashcard component the index lies between 0 and \<open>words.length - 1\<close>, so the current
  word exists. \<open>handleNext\<close> adds one only below \<open>words.length - 1\<close>, \<open>handlePrevious\<close>
  subtracts one only above 0, and \<open>handleTestReset\<close> sets the index to 0.
\<close>

theorem currentIndex_in_range:
  assumes "words \<noteq> []"
  shows "0 \<le> currentIndex (run shuffle1 shuffle2 words evs)
         \<and> currentIndex (run shuffle1 shuffle2 words evs) \<le> int (length words) - 1
         \<and> currentWord words (run shuffle1 shuffle2 words evs)
             = Some (words ! nat (currentIndex (run shuffle1 shuffle2 words evs)))
         \<and> (\<forall>st. currentIndex (handleNext words st)
                  = (if currentIndex st < int (length words) - 1 then currentIndex st + 1
                     else currentIndex st))
         \<and> (\<forall>st. currentIndex (handlePrevious st)
                  = (if currentIndex st > 0 then currentIndex st - 1 else currentIndex st))
         \<and> (\<forall>st. currentIndex (handleTestReset st) = 0)"
  using run_currentIndex[OF assms, of shuffle1 shuffle2 evs]
  by (auto simp: currentWord_def handleNext_def handlePrevious_def handleTestReset_def)


theorem currentIndex_in_range_witness:
  "[\<lparr>w_id = 1, w_arabic = [0x643], w_english = ascii ''book''\<rparr>,
    \<lparr>w_id = 2, w_arabic = [0x642], w_english = ascii ''pen''\<rparr>] \<noteq> []
   \<and> currentIndex (run id id
        [\<lparr>w_id = 1, w_arabic = [0x643], w_english = ascii ''book''\<rparr>,
         \<lparr>w_id = 2, w_arabic = [0x642], w_english = ascii ''pen''\<rparr>]
        [Next, Next, Next, Previous, Next]) = 1
   \<and> currentWord
        [\<lparr>w_id = 1, w_arabic = [0x643], w_english = ascii ''book''\<rparr>,
         \<lparr>w_id = 2, w_arabic = [0x642], w_english = ascii ''pen''\<rparr>]
        (run id id
          [\<lparr>w_id = 1, w_arabic = [0x643], w_english = ascii ''book''\<rparr>,
           \<lparr>w_id = 2, w_arabic = [0x642], w_english = ascii ''pen''\<rparr>]
          [Next, Next, Next, Previous, Next])
      = Some \<lparr>w_id = 2, w_arabic = [0x642], w_english = ascii ''pen''\<rparr>"
  using currentIndex_in_range[of
      "[\<lparr>w_id = 1, w_arabic = [0x643], w_english = ascii ''book''\<rparr>,
        \<lparr>w_id = 2, w_arabic = [0x642], w_english = ascii ''pen''\<rparr>]"
      id id "[Next, Next, Next, Previous, Next]"]
  by (simp add: run_def step_def handleNext_def handlePrevious_def initial_flashcards_def)

section \<open>The handlers up to the request\<close>

text \<open>A request in the trace fixes the path the handler took up to the \<^verbatim>\<open>fetch\<close>.\<close>

lemma vocabulary_sent:
  assumes "Fetch r \<in> set (fst (POST_vocabulary P basePrompt W))"
  shows "\<exists>fd file config key.
           requireAdmin W \<and> formData W = Some fd \<and> f_image fd = Some file
           \<and> startsWith (file_type file) (ascii ''image/'')
           \<and> getOpenRouterConfig W = Some config \<and> apiKey config = Some key \<and> key \<noteq> []
           \<and> r = chat_completion W key (choose_model (f_model fd) (supportedModels config))
                   (messages (promptText (f_customPrompt fd) basePrompt) (file_type file)
                      (base64 P (file_bytes file)))
           \<and> POST_vocabulary P basePrompt W =
               ([RequireAdmin, ReadFormData, GetOpenRouterConfig, Fetch r],
                after_fetch P (ascii ''Failed to parse vocabulary image'') (fetch W)
                  (choose_model (f_model fd) (supportedModels config))
                  (respond_wordPairs P (parse_existing P (f_existingWords fd))))"
  using assms unfolding POST_vocabulary_def Let_def
  by (auto split: if_splits option.splits)

lemma conversation_sent:
  assumes "Fetch r \<in> set (fst (POST_conversation P instructions W))"
  shows "\<exists>fd file lessonIdStr lessonId lesson config key.
           requireAdmin W \<and> formData W = Some fd \<and> f_image fd = Some file
           \<and> f_lessonId fd = Some lessonIdStr \<and> parseInt P lessonIdStr = Some lessonId
           \<and> db_lesson W lessonId = Some lesson
           \<and> startsWith (file_type file) (ascii ''image/'')
           \<and> getOpenRouterConfig W = Some config \<and> apiKey config = Some key \<and> key \<noteq> []
           \<and> r = chat_completion W key (choose_model (f_model fd) (supportedModels config))
                   (messages
                      (promptText (f_customPrompt fd)
                         (instructions
                          @ vocabularyContext (db_vocabulary_lessons W (lesson_unitId lesson))
                              (if length (db_vocabulary_lessons W (lesson_unitId lesson)) > 0
                               then db_vocabulary_words W
                                      (map lesson_id (db_vocabulary_lessons W (lesson_unitId lesson)))
                               else [])))
                      (file_type file) (base64 P (file_bytes file)))
           \<and> snd (POST_conversation P instructions W) =
                after_fetch P (ascii ''Failed to parse conversation image'') (fetch W)
                  (choose_model (f_model fd) (supportedModels config))
                  (respond_sentences P (parse_existing P (f_existingSentences fd)))"
proof -
  note d = POST_conversation_def Let_def
  have adm: "requireAdmin W"
    using assms by (cases "requireAdmin W") (simp_all add: d)
  obtain fd where fd: "formData W = Some fd"
    using assms adm by (cases "formData W") (simp_all add: d)
  obtain upl where fl: "f_image fd = Some upl"
    using assms adm fd by (cases "f_image fd") (simp_all add: d)
  obtain lessonIdStr where ls: "f_lessonId fd = Some lessonIdStr"
    using assms adm fd fl by (cases "f_lessonId fd") (simp_all add: d)
  have ne: "lessonIdStr \<noteq> []"
    using assms adm fd fl ls by (cases "lessonIdStr = []") (simp_all add: d)
  obtain lessonId where li: "parseInt P lessonIdStr = Some lessonId"
    using assms adm fd fl ls ne by (cases "parseInt P lessonIdStr") (simp_all add: d)
  have img: "startsWith (file_type upl) (ascii ''image/'')"
    using assms adm fd fl ls ne li
    by (cases "startsWith (file_type upl) (ascii ''image/'')") (simp_all add: d)
  obtain lesson where le: "db_lesson W lessonId = Some lesson"
    using assms adm fd fl ls ne li img by (cases "db_lesson W lessonId") (simp_all add: d)
  obtain config where co: "getOpenRouterConfig W = Some config"
    using assms adm fd fl ls ne li img le
    by (cases "getOpenRouterConfig W") (simp_all add: d)
  obtain key where ke: "apiKey config = Some key"
    using assms adm fd fl ls ne li img le co by (cases "apiKey config") (simp_all add: d)
  have kn: "key \<noteq> []"
    using assms adm fd fl ls ne li img le co ke by (cases "key = []") (simp_all add: d)
  show ?thesis
    using assms adm fd fl ls ne li img le co ke kn by (simp add: d)
qed

text \<open>
  Claim C3. When the admin check fails, each of the two extraction handlers answers 401
  with the body \<^verbatim>\<open>{error: "Unauthorized"}\<close> and its only outside call is the check
  itself: the form is not read and no request is sent. Without a session, each learner
  page redirects to \<^verbatim>\<open>/login\<close> and its only outside call is the session lookup.
\<close>

theorem unauthorized_or_no_session:
  "(\<not> requireAdmin W \<longrightarrow>
      POST_vocabulary P basePrompt W
        = ([RequireAdmin], Json 401 (ErrorOnly (Text (ascii ''Unauthorized''))))
      \<and> POST_conversation P instructions W
        = ([RequireAdmin], Json 401 (ErrorOnly (Text (ascii ''Unauthorized'')))))
   \<and> (getSession S = None \<longrightarrow>
        BooksPage S = ([GetSession], Redirect (ascii ''/login''))
        \<and> BookDetailPage P S book_param = ([GetSession], Redirect (ascii ''/login''))
        \<and> UnitDetailPage P S unit_param = ([GetSession], Redirect (ascii ''/login'')))"
  by (simp add: POST_vocabulary_def POST_conversation_def BooksPage_def BookDetailPage_def
        UnitDetailPage_def)

section \<open>The handlers after the reply\<close>

text \<open>A response that is not a bare error comes from the inner block.\<close>

lemma after_fetch_success:
  assumes "after_fetch P fallback result model respond = Json status b"
    and "\<forall>e. b \<noteq> ErrorOnly e"
  shows "\<exists>st stt data content.
           result = FetchResponse True st stt (Some data) \<and> reply_content P data = Inr content
           \<and> respond content (or_else P (getPropOpt (Some data) (ascii ''model'')) (JStr model))
               = Json status b"
  using assms
  by (auto simp: after_fetch_def failure_response_def
           split: fetch_result.splits if_splits option.splits sum.splits)

lemma respond_wordPairs_success:
  assumes "respond_wordPairs P existingWords content model = Json status (WordPairs ws ds m)"
  shows "\<exists>elems validated existing.
           reply_array P content = Some elems \<and> validate_wordPairs P elems = Some validated
           \<and> existingWordsSet P existingWords = Some existing
           \<and> ws = filter (\<lambda>pair. pairKey P pair \<notin> existing) validated
           \<and> ds = [] \<and> status = 200 \<and> m = model"
  using assms
  by (auto simp: respond_wordPairs_def extract_wordPairs_def split: option.splits)

lemma respond_sentences_success:
  assumes "respond_sentences P existingSentences content model = Json status (Sentences ss ds m)"
  shows "\<exists>elems validated existing.
           reply_array P content = Some elems \<and> validate_sentences P elems = Some validated
           \<and> existingSentencesSet P existingSentences = Some existing
           \<and> ss = filter (\<lambda>s. normalizeWord P (sn_arabic s) \<notin> existing) validated
           \<and> ds = filter (\<lambda>s. normalizeWord P (sn_arabic s) \<in> existing) validated
           \<and> status = 200 \<and> m = model"
  using assms
  by (auto simp: respond_sentences_def extract_sentences_def split: option.splits)

lemma vocabulary_answers:
  assumes "\<forall>e. b \<noteq> ErrorOnly e" and "snd (POST_vocabulary P basePrompt W) = Json status b"
  shows "\<exists>r. Fetch r \<in> set (fst (POST_vocabulary P basePrompt W))"
  using assms unfolding POST_vocabulary_def Let_def
  by (auto simp: failure_response_def split: if_splits option.splits)

lemma conversation_answers:
  assumes nb: "\<forall>e. b \<noteq> ErrorOnly e"
    and "snd (POST_conversation P instructions W) = Json status b"
  shows "\<exists>r. Fetch r \<in> set (fst (POST_conversation P instructions W))"
proof -
  note d = POST_conversation_def Let_def failure_response_def
  note a = assms
  have adm: "requireAdmin W"
    using a by (cases "requireAdmin W") (auto simp: d)
  obtain fd where fd: "formData W = Some fd"
    using a adm by (cases "formData W") (auto simp: d)
  obtain upl where fl: "f_image fd = Some upl"
    using a adm fd by (cases "f_image fd") (auto simp: d)
  obtain lessonIdStr where ls: "f_lessonId fd = Some lessonIdStr"
    using a adm fd fl by (cases "f_lessonId fd") (auto simp: d)
  have ne: "lessonIdStr \<noteq> []"
    using a adm fd fl ls by (cases "lessonIdStr = []") (auto simp: d)
  obtain lessonId where li: "parseInt P lessonIdStr = Some lessonId"
    using a adm fd fl ls ne by (cases "parseInt P lessonIdStr") (auto simp: d)
  have img: "startsWith (file_type upl) (ascii ''image/'')"
    using a adm fd fl ls ne li
    by (cases "startsWith (file_type upl) (ascii ''image/'')") (auto simp: d)
  obtain lesson where le: "db_lesson W lessonId = Some lesson"
    using a adm fd fl ls ne li img by (cases "db_lesson W lessonId") (auto simp: d)
  obtain config where co: "getOpenRouterConfig W = Some config"
    using a adm fd fl ls ne li img le
    by (cases "getOpenRouterConfig W") (auto simp: d)
  obtain key where ke: "apiKey config = Some key"
    using a adm fd fl ls ne li img le co by (cases "apiKey config") (auto simp: d)
  have kn: "key \<noteq> []"
    using a adm fd fl ls ne li img le co ke by (cases "key = []") (auto simp: d)
  show ?thesis
    using adm fd fl ls ne li img le co ke kn by (simp add: d)
qed

lemma vocabulary_success:
  assumes h: "snd (POST_vocabulary P basePrompt W) = Json status (WordPairs wordPairs duplicates model)"
  shows "\<exists>fd st stt data content elems validated existing.
         formData W = Some fd \<and> fetch W = FetchResponse True st stt (Some data)
         \<and> reply_content P data = Inr content
         \<and> reply_array P content = Some elems \<and> validate_wordPairs P elems = Some validated
         \<and> existingWordsSet P (parse_existing P (f_existingWords fd)) = Some existing
         \<and> wordPairs = filter (\<lambda>pair. pairKey P pair \<notin> existing) validated
         \<and> duplicates = []"
proof -
  from vocabulary_answers[OF _ h] obtain r where
    "Fetch r \<in> set (fst (POST_vocabulary P basePrompt W))" by auto
  from vocabulary_sent[OF this] obtain fd m0 where
    fd: "formData W = Some fd"
    and p: "snd (POST_vocabulary P basePrompt W) =
             after_fetch P (ascii ''Failed to parse vocabulary image'') (fetch W) m0
               (respond_wordPairs P (parse_existing P (f_existingWords fd)))"
    by fastforce
  from after_fetch_success[OF p[unfolded h, symmetric]] obtain st stt data content where
    f: "fetch W = FetchResponse True st stt (Some data)" "reply_content P data = Inr content"
    and r: "respond_wordPairs P (parse_existing P (f_existingWords fd)) content
              (or_else P (getPropOpt (Some data) (ascii ''model'')) (JStr m0))
            = Json status (WordPairs wordPairs duplicates model)"
    by auto
  from respond_wordPairs_success[OF r] fd f show ?thesis by blast
qed

lemma conversation_success:
  assumes h: "snd (POST_conversation P instructions W)
               = Json status (Sentences sentences duplicates model)"
  shows "\<exists>fd st stt data content elems validated existing.
         formData W = Some fd \<and> fetch W = FetchResponse True st stt (Some data)
         \<and> reply_content P data = Inr content
         \<and> reply_array P content = Some elems \<and> validate_sentences P elems = Some validated
         \<and> existingSentencesSet P (parse_existing P (f_existingSentences fd)) = Some existing
         \<and> sentences = filter (\<lambda>s. normalizeWord P (sn_arabic s) \<notin> existing) validated
         \<and> duplicates = filter (\<lambda>s. normalizeWord P (sn_arabic s) \<in> existing) validated"
proof -
  from conversation_answers[OF _ h] obtain r where
    "Fetch r \<in> set (fst (POST_conversation P instructions W))" by auto
  from conversation_sent[OF this] obtain fd m0 where
    fd: "formData W = Some fd"
    and p: "snd (POST_conversation P instructions W) =
             after_fetch P (ascii ''Failed to parse conversation image'') (fetch W) m0
               (respond_sentences P (parse_existing P (f_existingSentences fd)))"
    by fastforce
  from after_fetch_success[OF p[unfolded h, symmetric]] obtain st stt data content where
    f: "fetch W = FetchResponse True st stt (Some data)" "reply_content P data = Inr content"
    and r: "respond_sentences P (parse_existing P (f_existingSentences fd)) content
              (or_else P (getPropOpt (Some data) (ascii ''model'')) (JStr m0))
            = Json status (Sentences sentences duplicates model)"
    by auto
  from respond_sentences_success[OF r] fd f show ?thesis by blast
qed

text \<open>
  Claim C8. Every success response of the vocabulary handler has an empty
  \<^verbatim>\<open>duplicates\<close>, whatever the filter removed from the validated pairs; the witness
  below removes a pair and reports none. Every success response of the conversation
  handler has in \<^verbatim>\<open>duplicates\<close> exactly the validated sentences the filter removed, in
  their order.
\<close>

theorem duplicates_field:
  "(snd (POST_vocabulary P basePrompt W) = Json status (WordPairs wordPairs duplicates model) \<longrightarrow>
      (\<exists>fd st stt data content elems validated existing.
         formData W = Some fd \<and> fetch W = FetchResponse True st stt (Some data)
         \<and> reply_content P data = Inr content
         \<and> reply_array P content = Some elems \<and> validate_wordPairs P elems = Some validated
         \<and> existingWordsSet P (parse_existing P (f_existingWords fd)) = Some existing
         \<and> wordPairs = filter (\<lambda>pair. pairKey P pair \<notin> existing) validated
         \<and> duplicates = []))
   \<and> (snd (POST_conversation P instructions W)
         = Json status' (Sentences sentences duplicates' model') \<longrightarrow>
      (\<exists>fd st stt data content elems validated existing.
         formData W = Some fd \<and> fetch W = FetchResponse True st stt (Some data)
         \<and> reply_content P data = Inr content
         \<and> reply_array P content = Some elems \<and> validate_sentences P elems = Some validated
         \<and> existingSentencesSet P (parse_existing P (f_existingSentences fd)) = Some existing
         \<and> sentences = filter (\<lambda>s. normalizeWord P (sn_arabic s) \<notin> existing) validated
         \<and> duplicates' = filter (\<lambda>s. normalizeWord P (sn_arabic s) \<in> existing) validated))"
  using vocabulary_success[of P basePrompt W status wordPairs duplicates model]
    conversation_success[of P instructions W status' sentences duplicates' model']
  by blast

lemma after_fetch_reply:
  assumes "result = FetchResponse True st stt (Some data)" and "reply_content P data = Inr content"
  shows "after_fetch P fallback result model respond
           = respond content (or_else P (getPropOpt (Some data) (ascii ''model'')) (JStr model))"
  using assms by (simp add: after_fetch_def)

lemma vocabulary_reply:
  assumes "Fetch r \<in> set (fst (POST_vocabulary P basePrompt W))"
    and "fetch W = FetchResponse True st stt (Some data)"
    and "reply_content P data = Inr content"
  shows "\<exists>fd m. formData W = Some fd
           \<and> snd (POST_vocabulary P basePrompt W)
               = respond_wordPairs P (parse_existing P (f_existingWords fd)) content m"
proof -
  from vocabulary_sent[OF assms(1)] obtain fd m0 where
    "formData W = Some fd"
    "snd (POST_vocabulary P basePrompt W) =
       after_fetch P (ascii ''Failed to parse vocabulary image'') (fetch W) m0
         (respond_wordPairs P (parse_existing P (f_existingWords fd)))"
    by fastforce
  then show ?thesis
    using after_fetch_reply[OF assms(2,3)] by metis
qed

lemma conversation_reply:
  assumes "Fetch r \<in> set (fst (POST_conversation P instructions W))"
    and "fetch W = FetchResponse True st stt (Some data)"
    and "reply_content P data = Inr content"
  shows "\<exists>fd m. formData W = Some fd
           \<and> snd (POST_conversation P instructions W)
               = respond_sentences P (parse_existing P (f_existingSentences fd)) content m"
proof -
  from conversation_sent[OF assms(1)] obtain fd m0 where
    "formData W = Some fd"
    "snd (POST_conversation P instructions W) =
       after_fetch P (ascii ''Failed to parse conversation image'') (fetch W) m0
         (respond_sentences P (parse_existing P (f_existingSentences fd)))"
    by fastforce
  then show ?thesis
    using after_fetch_reply[OF assms(2,3)] by metis
qed

lemma reply_array_None:
  "\<forall>elems. JSON_parse P (parse_candidate content) \<noteq> Some (JArr elems)
     \<Longrightarrow> reply_array P (JStr content) = None"
  by (auto simp: reply_array_def split: option.splits json.splits)

text \<open>
  Claim C2. When the reply content is a string and the text the handler parses (the
  bracket match, or the whole content when there is no match) does not parse to an
  array, the handler answers 500 with its parse error message and the raw content, and
  with no \<^verbatim>\<open>wordPairs\<close> or \<^verbatim>\<open>sentences\<close>.
\<close>

theorem unparseable_reply:
  "(Fetch r \<in> set (fst (POST_vocabulary P basePrompt W))
      \<and> fetch W = FetchResponse True st stt (Some data)
      \<and> reply_content P data = Inr (JStr content)
      \<and> (\<forall>elems. JSON_parse P (case jsonMatch content of Some m \<Rightarrow> m | None \<Rightarrow> content)
                     \<noteq> Some (JArr elems))
      \<longrightarrow> snd (POST_vocabulary P basePrompt W)
            = Json 500 (ErrorRaw (ascii ''Failed to parse extracted word pairs. The AI response was not in the expected format.'')
                          (JStr content)))
   \<and> (Fetch r' \<in> set (fst (POST_conversation P instructions W))
      \<and> fetch W = FetchResponse True st stt (Some data)
      \<and> reply_content P data = Inr (JStr content)
      \<and> (\<forall>elems. JSON_parse P (case jsonMatch content of Some m \<Rightarrow> m | None \<Rightarrow> content)
                     \<noteq> Some (JArr elems))
      \<longrightarrow> snd (POST_conversation P instructions W)
            = Json 500 (ErrorRaw (ascii ''Failed to parse extracted sentences. The AI response was not in the expected format.'')
                          (JStr content)))"
proof (intro conjI impI)
  assume a: "Fetch r \<in> set (fst (POST_vocabulary P basePrompt W))
      \<and> fetch W = FetchResponse True st stt (Some data)
      \<and> reply_content P data = Inr (JStr content)
      \<and> (\<forall>elems. JSON_parse P (case jsonMatch content of Some m \<Rightarrow> m | None \<Rightarrow> content)
                     \<noteq> Some (JArr elems))"
  then have "reply_array P (JStr content) = None"
    using reply_array_None[of P content] by (simp add: parse_candidate_def)
  moreover from a vocabulary_reply[of r P basePrompt W st stt data "JStr content"]
  obtain fd m where "formData W = Some fd" "snd (POST_vocabulary P basePrompt W)
               = respond_wordPairs P (parse_existing P (f_existingWords fd)) (JStr content) m"
    by blast
  ultimately show "snd (POST_vocabulary P basePrompt W)
            = Json 500 (ErrorRaw (ascii ''Failed to parse extracted word pairs. The AI response was not in the expected format.'')
                          (JStr content))"
    by (simp add: respond_wordPairs_def extract_wordPairs_def)
next
  assume a: "Fetch r' \<in> set (fst (POST_conversation P instructions W))
      \<and> fetch W = FetchResponse True st stt (Some data)
      \<and> reply_content P data = Inr (JStr content)
      \<and> (\<forall>elems. JSON_parse P (case jsonMatch content of Some m \<Rightarrow> m | None \<Rightarrow> content)
                     \<noteq> Some (JArr elems))"
  then have "reply_array P (JStr content) = None"
    using reply_array_None[of P content] by (simp add: parse_candidate_def)
  moreover from a conversation_reply[of r' P instructions W st stt data "JStr content"]
  obtain fd m where "formData W = Some fd" "snd (POST_conversation P instructions W)
               = respond_sentences P (parse_existing P (f_existingSentences fd)) (JStr content) m"
    by blast
  ultimately show "snd (POST_conversation P instructions W)
            = Json 500 (ErrorRaw (ascii ''Failed to parse extracted sentences. The AI response was not in the expected format.'')
                          (JStr content))"
    by (simp add: respond_sentences_def extract_sentences_def)
qed

subsection \<open>The keys of the existing records\<close>

lemma map_throwing_set:
  "map_throwing f xs = Some ys \<Longrightarrow> set ys = {y. \<exists>x\<in>set xs. f x = Some y}"
proof (induction xs arbitrary: ys)
  case Nil
  then show ?case by simp
next
  case (Cons x xs)
  then show ?case by (auto split: option.splits)
qed

lemma map_throwing_defined:
  "\<forall>x\<in>set xs. f x \<noteq> None \<Longrightarrow> \<exists>ys. map_throwing f xs = Some ys"
  by (induction xs) (auto split: option.splits)

lemma existingWordsSet_records:
  assumes "\<forall>w\<in>set records. \<exists>a e. getProp (Some w) (ascii ''arabic'') = Inr (Some (JStr a))
                                   \<and> getProp (Some w) (ascii ''english'') = Inr (Some (JStr e))"
  shows "\<exists>existing. existingWordsSet P (JArr records) = Some existing
           \<and> (\<forall>k. k \<in> existing \<longleftrightarrow>
                 (\<exists>w\<in>set records. \<exists>a e.
                     getProp (Some w) (ascii ''arabic'') = Inr (Some (JStr a))
                     \<and> getProp (Some w) (ascii ''english'') = Inr (Some (JStr e))
                     \<and> k = trim (toLowerCase P a) @ ascii ''|'' @ trim (toLowerCase P e)))"
proof -
  have key: "existingWordKey P w = Some (trim (toLowerCase P a) @ ascii ''|'' @ trim (toLowerCase P e))"
    if "getProp (Some w) (ascii ''arabic'') = Inr (Some (JStr a))"
       "getProp (Some w) (ascii ''english'') = Inr (Some (JStr e))" for w a e
    using that by (simp add: existingWordKey_def normalizeField_def normalizeWord_def)
  have "\<forall>w\<in>set records. existingWordKey P w \<noteq> None"
    using assms key by fastforce
  from map_throwing_defined[OF this] obtain ks where
    ks: "map_throwing (existingWordKey P) records = Some ks" by blast
  have "k \<in> set ks \<longleftrightarrow>
          (\<exists>w\<in>set records. \<exists>a e.
              getProp (Some w) (ascii ''arabic'') = Inr (Some (JStr a))
              \<and> getProp (Some w) (ascii ''english'') = Inr (Some (JStr e))
              \<and> k = trim (toLowerCase P a) @ ascii ''|'' @ trim (toLowerCase P e))" for k
  proof
    assume "k \<in> set ks"
    then obtain w where w: "w \<in> set records" "existingWordKey P w = Some k"
      using map_throwing_set[OF ks] by auto
    from assms w(1) obtain a e where
      ae: "getProp (Some w) (ascii ''arabic'') = Inr (Some (JStr a))"
          "getProp (Some w) (ascii ''english'') = Inr (Some (JStr e))" by blast
    from key[OF ae] w(2) have "k = trim (toLowerCase P a) @ ascii ''|'' @ trim (toLowerCase P e)"
      by simp
    with w(1) ae show "\<exists>w\<in>set records. \<exists>a e.
              getProp (Some w) (ascii ''arabic'') = Inr (Some (JStr a))
              \<and> getProp (Some w) (ascii ''english'') = Inr (Some (JStr e))
              \<and> k = trim (toLowerCase P a) @ ascii ''|'' @ trim (toLowerCase P e)"
      by blast
  next
    assume "\<exists>w\<in>set records. \<exists>a e.
              getProp (Some w) (ascii ''arabic'') = Inr (Some (JStr a))
              \<and> getProp (Some w) (ascii ''english'') = Inr (Some (JStr e))
              \<and> k = trim (toLowerCase P a) @ ascii ''|'' @ trim (toLowerCase P e)"
    then obtain w a e where w: "w \<in> set records"
      and ae: "getProp (Some w) (ascii ''arabic'') = Inr (Some (JStr a))"
          "getProp (Some w) (ascii ''english'') = Inr (Some (JStr e))"
      and k: "k = trim (toLowerCase P a) @ ascii ''|'' @ trim (toLowerCase P e)" by blast
    from key[OF ae] k have "existingWordKey P w = Some k" by simp
    with w show "k \<in> set ks" using map_throwing_set[OF ks] by auto
  qed
  with ks show ?thesis by (simp add: existingWordsSet_def)
qed

lemma existingSentencesSet_records:
  assumes "\<forall>w\<in>set records. \<exists>a. getProp (Some w) (ascii ''arabic'') = Inr (Some (JStr a))"
  shows "\<exists>existing. existingSentencesSet P (JArr records) = Some existing
           \<and> (\<forall>k. k \<in> existing \<longleftrightarrow>
                 (\<exists>w\<in>set records. \<exists>a.
                     getProp (Some w) (ascii ''arabic'') = Inr (Some (JStr a))
                     \<and> k = trim (toLowerCase P a)))"
proof -
  let ?f = "\<lambda>s. normalizeField P s (ascii ''arabic'')"
  have key: "?f w = Some (trim (toLowerCase P a))"
    if "getProp (Some w) (ascii ''arabic'') = Inr (Some (JStr a))" for w a
    using that by (simp add: normalizeField_def normalizeWord_def)
  have "\<forall>w\<in>set records. ?f w \<noteq> None"
    using assms key by fastforce
  from map_throwing_defined[OF this] obtain ks where
    ks: "map_throwing ?f records = Some ks" by blast
  have "k \<in> set ks \<longleftrightarrow>
          (\<exists>w\<in>set records. \<exists>a.
              getProp (Some w) (ascii ''arabic'') = Inr (Some (JStr a))
              \<and> k = trim (toLowerCase P a))" for k
  proof
    assume "k \<in> set ks"
    then obtain w where w: "w \<in> set records" "?f w = Some k"
      using map_throwing_set[OF ks] by auto
    from assms w(1) obtain a where
      ae: "getProp (Some w) (ascii ''arabic'') = Inr (Some (JStr a))" by blast
    from key[OF ae] w(2) have "k = trim (toLowerCase P a)" by simp
    with w(1) ae show "\<exists>w\<in>set records. \<exists>a.
              getProp (Some w) (ascii ''arabic'') = Inr (Some (JStr a))
              \<and> k = trim (toLowerCase P a)"
      by blast
  next
    assume "\<exists>w\<in>set records. \<exists>a.
              getProp (Some w) (ascii ''arabic'') = Inr (Some (JStr a))
              \<and> k = trim (toLowerCase P a)"
    then obtain w a where w: "w \<in> set records"
      and ae: "getProp (Some w) (ascii ''arabic'') = Inr (Some (JStr a))"
      and k: "k = trim (toLowerCase P a)" by blast
    from key[OF ae] k have "?f w = Some k" by simp
    with w show "k \<in> set ks" using map_throwing_set[OF ks] by auto
  qed
  with ks show ?thesis by (simp add: existingSentencesSet_def)
qed

text \<open>
  Claim C1. When the existing records are an array of objects with string fields, the
  returned \<^verbatim>\<open>wordPairs\<close> are the validated pairs, in their order, without those whose
  key \<^verbatim>\<open>arabic|english\<close>, lowercased and trimmed field by field, is the key of an existing
  record; the returned \<^verbatim>\<open>sentences\<close> are the validated sentences without those whose
  lowercased and trimmed \<^verbatim>\<open>arabic\<close> is that of an existing record.
\<close>

theorem deduplication:
  "(Fetch r \<in> set (fst (POST_vocabulary P basePrompt W))
      \<and> formData W = Some fd \<and> fetch W = FetchResponse True st stt (Some data)
      \<and> reply_content P data = Inr content
      \<and> reply_array P content = Some elems \<and> validate_wordPairs P elems = Some validated
      \<and> parse_existing P (f_existingWords fd) = JArr records
      \<and> (\<forall>w\<in>set records. \<exists>a e. getProp (Some w) (ascii ''arabic'') = Inr (Some (JStr a))
                                  \<and> getProp (Some w) (ascii ''english'') = Inr (Some (JStr e)))
      \<longrightarrow> (\<exists>duplicates model.
             snd (POST_vocabulary P basePrompt W)
             = Json 200
                 (WordPairs
                    (filter (\<lambda>pair. \<not> (\<exists>w\<in>set records. \<exists>a e.
                                getProp (Some w) (ascii ''arabic'') = Inr (Some (JStr a))
                                \<and> getProp (Some w) (ascii ''english'') = Inr (Some (JStr e))
                                \<and> trim (toLowerCase P (wp_arabic pair)) @ ascii ''|''
                                    @ trim (toLowerCase P (wp_english pair))
                                  = trim (toLowerCase P a) @ ascii ''|'' @ trim (toLowerCase P e)))
                       validated)
                    duplicates model)))
   \<and> (Fetch r' \<in> set (fst (POST_conversation P instructions W))
      \<and> formData W = Some fd \<and> fetch W = FetchResponse True st stt (Some data)
      \<and> reply_content P data = Inr content
      \<and> reply_array P content = Some elems' \<and> validate_sentences P elems' = Some validated'
      \<and> parse_existing P (f_existingSentences fd) = JArr records'
      \<and> (\<forall>w\<in>set records'. \<exists>a. getProp (Some w) (ascii ''arabic'') = Inr (Some (JStr a)))
      \<longrightarrow> (\<exists>duplicates model.
             snd (POST_conversation P instructions W)
             = Json 200
                 (Sentences
                    (filter (\<lambda>s. \<not> (\<exists>w\<in>set records'. \<exists>a.
                                getProp (Some w) (ascii ''arabic'') = Inr (Some (JStr a))
                                \<and> trim (toLowerCase P (sn_arabic s)) = trim (toLowerCase P a)))
                       validated')
                    duplicates model)))"
proof (intro conjI impI)
  assume a: "Fetch r \<in> set (fst (POST_vocabulary P basePrompt W))
      \<and> formData W = Some fd \<and> fetch W = FetchResponse True st stt (Some data)
      \<and> reply_content P data = Inr content
      \<and> reply_array P content = Some elems \<and> validate_wordPairs P elems = Some validated
      \<and> parse_existing P (f_existingWords fd) = JArr records
      \<and> (\<forall>w\<in>set records. \<exists>a e. getProp (Some w) (ascii ''arabic'') = Inr (Some (JStr a))
                                  \<and> getProp (Some w) (ascii ''english'') = Inr (Some (JStr e)))"
  from a vocabulary_reply[of r P basePrompt W st stt data content]
  obtain m where p: "snd (POST_vocabulary P basePrompt W)
               = respond_wordPairs P (JArr records) content m"
    by auto
  from a existingWordsSet_records[of records P] obtain existing where
    e: "existingWordsSet P (JArr records) = Some existing"
    and k: "\<And>k. k \<in> existing \<longleftrightarrow>
                 (\<exists>w\<in>set records. \<exists>a e.
                     getProp (Some w) (ascii ''arabic'') = Inr (Some (JStr a))
                     \<and> getProp (Some w) (ascii ''english'') = Inr (Some (JStr e))
                     \<and> k = trim (toLowerCase P a) @ ascii ''|'' @ trim (toLowerCase P e))"
    by blast
  have "snd (POST_vocabulary P basePrompt W)
          = Json 200 (WordPairs (filter (\<lambda>pair. pairKey P pair \<notin> existing) validated) [] m)"
    using a p e by (simp add: respond_wordPairs_def extract_wordPairs_def)
  then show "\<exists>duplicates model.
             snd (POST_vocabulary P basePrompt W)
             = Json 200
                 (WordPairs
                    (filter (\<lambda>pair. \<not> (\<exists>w\<in>set records. \<exists>a e.
                                getProp (Some w) (ascii ''arabic'') = Inr (Some (JStr a))
                                \<and> getProp (Some w) (ascii ''english'') = Inr (Some (JStr e))
                                \<and> trim (toLowerCase P (wp_arabic pair)) @ ascii ''|''
                                    @ trim (toLowerCase P (wp_english pair))
                                  = trim (toLowerCase P a) @ ascii ''|'' @ trim (toLowerCase P e)))
                       validated)
                    duplicates model)"
    by (simp add: k pairKey_def normalizeWord_def)
next
  assume a: "Fetch r' \<in> set (fst (POST_conversation P instructions W))
      \<and> formData W = Some fd \<and> fetch W = FetchResponse True st stt (Some data)
      \<and> reply_content P data = Inr content
      \<and> reply_array P content = Some elems' \<and> validate_sentences P elems' = Some validated'
      \<and> parse_existing P (f_existingSentences fd) = JArr records'
      \<and> (\<forall>w\<in>set records'. \<exists>a. getProp (Some w) (ascii ''arabic'') = Inr (Some (JStr a)))"
  from a conversation_reply[of r' P instructions W st stt data content]
  obtain m where p: "snd (POST_conversation P instructions W)
               = respond_sentences P (JArr records') content m"
    by auto
  from a existingSentencesSet_records[of records' P] obtain existing where
    e: "existingSentencesSet P (JArr records') = Some existing"
    and k: "\<And>k. k \<in> existing \<longleftrightarrow>
                 (\<exists>w\<in>set records'. \<exists>a.
                     getProp (Some w) (ascii ''arabic'') = Inr (Some (JStr a))
                     \<and> k = trim (toLowerCase P a))"
    by blast
  have "snd (POST_conversation P instructions W)
          = Json 200 (Sentences (filter (\<lambda>s. normalizeWord P (sn_arabic s) \<notin> existing) validated')
                        (filter (\<lambda>s. normalizeWord P (sn_arabic s) \<in> existing) validated') m)"
    using a p e by (simp add: respond_sentences_def extract_sentences_def)
  then show "\<exists>duplicates model.
             snd (POST_conversation P instructions W)
             = Json 200
                 (Sentences
                    (filter (\<lambda>s. \<not> (\<exists>w\<in>set records'. \<exists>a.
                                getProp (Some w) (ascii ''arabic'') = Inr (Some (JStr a))
                                \<and> trim (toLowerCase P (sn_arabic s)) = trim (toLowerCase P a)))
                       validated')
                    duplicates model)"
    by (simp add: k normalizeWord_def)
qed

subsection \<open>Validation\<close>

lemma filter_throwing_drop:
  "p x = Some False \<Longrightarrow> filter_throwing p (xs @ x # ys) = filter_throwing p (xs @ ys)"
  by (induction xs) (auto split: option.splits)

lemma pair_present_falsy:
  assumes "entry \<noteq> JNull"
    and "\<not> (truthy P (getPropOpt (Some entry) (ascii ''arabic''))
            \<and> truthy P (getPropOpt (Some entry) (ascii ''english'')))"
  shows "pair_present P entry = Some False"
  using assms by (cases entry) (auto simp: pair_present_def)

lemma sentence_present_falsy:
  assumes "entry \<noteq> JNull"
    and "\<not> truthy P (getPropOpt (Some entry) (ascii ''arabic''))"
  shows "sentence_present P entry = Some False"
  using assms by (cases entry) (auto simp: sentence_present_def)

lemma pair_strings_trimmed:
  "pair_strings P x = Some pair
     \<Longrightarrow> trim (wp_arabic pair) = wp_arabic pair \<and> trim (wp_english pair) = wp_english pair"
  by (auto simp: pair_strings_def trim_idem split: sum.splits option.splits)

lemma sentence_strings_trimmed:
  "sentence_strings P x = Some s \<Longrightarrow> trim (sn_arabic s) = sn_arabic s"
  by (auto simp: sentence_strings_def trim_idem split: sum.splits option.splits if_splits)

lemma validate_wordPairs_wellformed:
  assumes "validate_wordPairs P elems = Some validated" and "pair \<in> set validated"
  shows "trim (wp_arabic pair) = wp_arabic pair \<and> trim (wp_english pair) = wp_english pair
         \<and> length (wp_arabic pair) > 0 \<and> length (wp_english pair) > 0"
proof -
  from assms(1) obtain present pairs where
    m: "map_throwing (pair_strings P) present = Some pairs"
    and v: "validated = filter (\<lambda>pair. length (wp_arabic pair) > 0 \<and> length (wp_english pair) > 0) pairs"
    by (auto simp: validate_wordPairs_def split: option.splits)
  from assms(2) v have "pair \<in> set pairs" "length (wp_arabic pair) > 0" "length (wp_english pair) > 0"
    by auto
  moreover from this(1) map_throwing_set[OF m] obtain x where "pair_strings P x = Some pair"
    by auto
  ultimately show ?thesis using pair_strings_trimmed by blast
qed

lemma validate_sentences_wellformed:
  assumes "validate_sentences P elems = Some validated" and "s \<in> set validated"
  shows "trim (sn_arabic s) = sn_arabic s \<and> length (sn_arabic s) > 0"
proof -
  from assms(1) obtain present ss where
    m: "map_throwing (sentence_strings P) present = Some ss"
    and v: "validated = filter (\<lambda>s. length (sn_arabic s) > 0) ss"
    by (auto simp: validate_sentences_def split: option.splits)
  from assms(2) v have "s \<in> set ss" "length (sn_arabic s) > 0"
    by auto
  moreover from this(1) map_throwing_set[OF m] obtain x where "sentence_strings P x = Some s"
    by auto
  ultimately show ?thesis using sentence_strings_trimmed by blast
qed

section \<open>The handlers on the concrete inputs\<close>

lemma example_vocabulary_run:
  "POST_vocabulary example_platform (ascii ''BASE'') (example_world example_content)
     = ([RequireAdmin, ReadFormData, GetOpenRouterConfig, Fetch example_request],
        Json 200 (WordPairs [\<lparr>wp_arabic = ascii ''qalam'', wp_english = ascii ''pen''\<rparr>] []
                    (JStr (ascii ''openai/gpt-4o''))))"
  by code_simp

lemma example_conversation_run:
  "POST_conversation example_platform (ascii ''BASE'') (example_world example_content)
     = ([RequireAdmin, ReadFormData, SelectLesson 7, SelectVocabularyLessons 3,
         GetOpenRouterConfig, Fetch example_request],
        Json 200 (Sentences [\<lparr>sn_arabic = ascii ''qalam'', sn_english = Some (ascii ''pen'')\<rparr>]
                    [\<lparr>sn_arabic = ascii ''Kitab'', sn_english = Some (ascii ''Book'')\<rparr>]
                    (JStr (ascii ''openai/gpt-4o''))))"
  by code_simp

lemma example_reply_content:
  "fetch (example_world c) = FetchResponse True (ascii ''200'') (ascii ''OK'') (Some (example_completion c))"
  "reply_content example_platform (example_completion c) = Inr (JStr c)"
  "formData (example_world c) = Some example_form"
  by (simp_all add: example_world_def reply_content_def example_completion_def or_else_def ascii_def)

lemma example_validated:
  "reply_array example_platform (JStr example_content) = Some example_elems"
  "validate_wordPairs example_platform example_elems
     = Some [\<lparr>wp_arabic = ascii ''Kitab'', wp_english = ascii ''Book''\<rparr>,
             \<lparr>wp_arabic = ascii ''qalam'', wp_english = ascii ''pen''\<rparr>]"
  "validate_sentences example_platform example_elems
     = Some [\<lparr>sn_arabic = ascii ''Kitab'', sn_english = Some (ascii ''Book'')\<rparr>,
             \<lparr>sn_arabic = ascii ''qalam'', sn_english = Some (ascii ''pen'')\<rparr>]"
  "parse_existing example_platform (f_existingWords example_form) = JArr example_records"
  "parse_existing example_platform (f_existingSentences example_form) = JArr example_records"
  by code_simp+

lemma example_records_typed:
  "\<forall>w\<in>set example_records.
     \<exists>a e. getProp (Some w) (ascii ''arabic'') = Inr (Some (JStr a))
           \<and> getProp (Some w) (ascii ''english'') = Inr (Some (JStr e))"
  by (simp add: example_records_def ascii_def)

theorem deduplication_witness:
  "Fetch example_request
     \<in> set (fst (POST_vocabulary example_platform (ascii ''BASE'') (example_world example_content)))
   \<and> validate_wordPairs example_platform example_elems
       = Some [\<lparr>wp_arabic = ascii ''Kitab'', wp_english = ascii ''Book''\<rparr>,
               \<lparr>wp_arabic = ascii ''qalam'', wp_english = ascii ''pen''\<rparr>]
   \<and> parse_existing example_platform (f_existingWords example_form) = JArr example_records
   \<and> snd (POST_vocabulary example_platform (ascii ''BASE'') (example_world example_content))
       = Json 200 (WordPairs [\<lparr>wp_arabic = ascii ''qalam'', wp_english = ascii ''pen''\<rparr>] []
                     (JStr (ascii ''openai/gpt-4o'')))
   \<and> snd (POST_conversation example_platform (ascii ''BASE'') (example_world example_content))
       = Json 200 (Sentences [\<lparr>sn_arabic = ascii ''qalam'', sn_english = Some (ascii ''pen'')\<rparr>]
                     [\<lparr>sn_arabic = ascii ''Kitab'', sn_english = Some (ascii ''Book'')\<rparr>]
                     (JStr (ascii ''openai/gpt-4o'')))"
  using deduplication[of example_request example_platform "ascii ''BASE''"
      "example_world example_content" example_form "ascii ''200''" "ascii ''OK''"
      "example_completion example_content" "JStr example_content" example_elems
      "[\<lparr>wp_arabic = ascii ''Kitab'', wp_english = ascii ''Book''\<rparr>,
        \<lparr>wp_arabic = ascii ''qalam'', wp_english = ascii ''pen''\<rparr>]"
      example_records example_request "ascii ''BASE''" example_elems
      "[\<lparr>sn_arabic = ascii ''Kitab'', sn_english = Some (ascii ''Book'')\<rparr>,
        \<lparr>sn_arabic = ascii ''qalam'', sn_english = Some (ascii ''pen'')\<rparr>]"
      example_records]
    example_vocabulary_run example_conversation_run example_validated
  by simp


lemma example_silent_runs:
  "POST_vocabulary example_platform (ascii ''BASE'') (example_world (ascii ''I found no words.''))
     = ([RequireAdmin, ReadFormData, GetOpenRouterConfig, Fetch example_request],
        Json 500 (ErrorRaw (ascii ''Failed to parse extracted word pairs. The AI response was not in the expected format.'')
                    (JStr (ascii ''I found no words.''))))"
  "POST_conversation example_platform (ascii ''BASE'') (example_world (ascii ''I found no words.''))
     = ([RequireAdmin, ReadFormData, SelectLesson 7, SelectVocabularyLessons 3,
         GetOpenRouterConfig, Fetch example_request],
        Json 500 (ErrorRaw (ascii ''Failed to parse extracted sentences. The AI response was not in the expected format.'')
                    (JStr (ascii ''I found no words.''))))"
  "JSON_parse example_platform
     (case jsonMatch (ascii ''I found no words.'') of Some m \<Rightarrow> m | None \<Rightarrow> ascii ''I found no words.'')
   = None"
  by code_simp+

theorem unparseable_reply_witness:
  "Fetch example_request
     \<in> set (fst (POST_vocabulary example_platform (ascii ''BASE'')
                   (example_world (ascii ''I found no words.''))))
   \<and> JSON_parse example_platform
        (case jsonMatch (ascii ''I found no words.'') of
           Some m \<Rightarrow> m | None \<Rightarrow> ascii ''I found no words.'')
       = None
   \<and> snd (POST_vocabulary example_platform (ascii ''BASE'')
            (example_world (ascii ''I found no words.'')))
       = Json 500 (ErrorRaw (ascii ''Failed to parse extracted word pairs. The AI response was not in the expected format.'')
                     (JStr (ascii ''I found no words.'')))
   \<and> snd (POST_conversation example_platform (ascii ''BASE'')
            (example_world (ascii ''I found no words.'')))
       = Json 500 (ErrorRaw (ascii ''Failed to parse extracted sentences. The AI response was not in the expected format.'')
                     (JStr (ascii ''I found no words.'')))"
  using unparseable_reply[of example_request example_platform "ascii ''BASE''"
      "example_world (ascii ''I found no words.'')" "ascii ''200''" "ascii ''OK''"
      "example_completion (ascii ''I found no words.'')" "ascii ''I found no words.''"
      example_request "ascii ''BASE''"]
    example_silent_runs
  by simp

theorem unauthorized_or_no_session_witness:
  "\<not> requireAdmin ((example_world example_content)\<lparr>requireAdmin := False\<rparr>)
   \<and> POST_vocabulary example_platform (ascii ''BASE'')
        ((example_world example_content)\<lparr>requireAdmin := False\<rparr>)
       = ([RequireAdmin], Json 401 (ErrorOnly (Text (ascii ''Unauthorized''))))
   \<and> POST_conversation example_platform (ascii ''BASE'')
        ((example_world example_content)\<lparr>requireAdmin := False\<rparr>)
       = ([RequireAdmin], Json 401 (ErrorOnly (Text (ascii ''Unauthorized''))))
   \<and> getSession example_site = None
   \<and> BooksPage example_site = ([GetSession], Redirect (ascii ''/login''))
   \<and> BookDetailPage example_platform example_site (ascii ''1'')
       = ([GetSession], Redirect (ascii ''/login''))
   \<and> UnitDetailPage example_platform example_site (ascii ''7'')
       = ([GetSession], Redirect (ascii ''/login''))"
  using unauthorized_or_no_session[of "(example_world example_content)\<lparr>requireAdmin := False\<rparr>"
      example_platform "ascii ''BASE''" "ascii ''BASE''" example_site "ascii ''1''" "ascii ''7''"]
  by (simp add: example_world_def example_site_def)

theorem duplicates_field_witness:
  "snd (POST_vocabulary example_platform (ascii ''BASE'') (example_world example_content))
     = Json 200 (WordPairs [\<lparr>wp_arabic = ascii ''qalam'', wp_english = ascii ''pen''\<rparr>] []
                   (JStr (ascii ''openai/gpt-4o'')))
   \<and> validate_wordPairs example_platform example_elems
       = Some [\<lparr>wp_arabic = ascii ''Kitab'', wp_english = ascii ''Book''\<rparr>,
               \<lparr>wp_arabic = ascii ''qalam'', wp_english = ascii ''pen''\<rparr>]
   \<and> snd (POST_conversation example_platform (ascii ''BASE'') (example_world example_content))
       = Json 200 (Sentences [\<lparr>sn_arabic = ascii ''qalam'', sn_english = Some (ascii ''pen'')\<rparr>]
                     [\<lparr>sn_arabic = ascii ''Kitab'', sn_english = Some (ascii ''Book'')\<rparr>]
                     (JStr (ascii ''openai/gpt-4o'')))"
  using duplicates_field[of example_platform "ascii ''BASE''" "example_world example_content" 200
      "[\<lparr>wp_arabic = ascii ''qalam'', wp_english = ascii ''pen''\<rparr>]" "[]"
      "JStr (ascii ''openai/gpt-4o'')" "ascii ''BASE''" 200
      "[\<lparr>sn_arabic = ascii ''qalam'', sn_english = Some (ascii ''pen'')\<rparr>]"
      "[\<lparr>sn_arabic = ascii ''Kitab'', sn_english = Some (ascii ''Book'')\<rparr>]"
      "JStr (ascii ''openai/gpt-4o'')"]
    example_vocabulary_run example_conversation_run example_validated
  by simp

lemma example_null_runs:
  "reply_array example_platform (JStr (ascii ''[null]'')) = Some [JNull]"
  "snd (POST_vocabulary example_platform (ascii ''BASE'') (example_world (ascii ''[null]'')))
     = Json 500 (ErrorRaw (ascii ''Failed to parse extracted word pairs. The AI response was not in the expected format.'')
                   (JStr (ascii ''[null]'')))"
  "snd (POST_conversation example_platform (ascii ''BASE'') (example_world (ascii ''[null]'')))
     = Json 500 (ErrorRaw (ascii ''Failed to parse extracted sentences. The AI response was not in the expected format.'')
                   (JStr (ascii ''[null]'')))"
  by code_simp+

theorem null_entry_counterexample:
  "reply_array example_platform (JStr (ascii ''[null]'')) = Some [JNull]
   \<and> snd (POST_vocabulary example_platform (ascii ''BASE'') (example_world (ascii ''[null]'')))
       = Json 500 (ErrorRaw (ascii ''Failed to parse extracted word pairs. The AI response was not in the expected format.'')
                     (JStr (ascii ''[null]'')))
   \<and> snd (POST_conversation example_platform (ascii ''BASE'') (example_world (ascii ''[null]'')))
       = Json 500 (ErrorRaw (ascii ''Failed to parse extracted sentences. The AI response was not in the expected format.'')
                     (JStr (ascii ''[null]'')))"
  using example_null_runs by simp

section \<open>The flashcard test\<close>

lemma update_fresh: "k \<notin> fst ` set xs \<Longrightarrow> AList.update k v xs = xs @ [(k, v)]"
  by (induction xs) auto

lemma foldl_update_distinct:
  assumes "distinct (map key ws)" and "\<forall>w\<in>set ws. key w \<notin> fst ` set acc"
  shows "foldl (\<lambda>results w. AList.update (key w) (val w) results) acc ws
           = acc @ map (\<lambda>w. (key w, val w)) ws"
  using assms
proof (induction ws arbitrary: acc)
  case Nil
  then show ?case by simp
next
  case (Cons w ws)
  have fresh: "key w \<notin> fst ` set acc" using Cons.prems(2) by simp
  have "\<forall>w'\<in>set ws. key w' \<notin> fst ` set (acc @ [(key w, val w)])"
    using Cons.prems by (auto simp: image_iff)
  with Cons.IH[of "acc @ [(key w, val w)]"] Cons.prems(1)
  show ?case by (simp add: update_fresh[OF fresh])
qed

lemma map_of_keyed:
  assumes "distinct (map key ws)" and "w \<in> set ws"
  shows "map_of (map (\<lambda>w. (key w, val w)) ws) (key w) = Some (val w)"
  using assms by (induction ws) (auto simp: image_iff)

lemma testResults_submit:
  assumes "distinct (map w_id words)"
  shows "testResults (handleTestSubmit words st)
           = map (\<lambda>word. (w_id word, given_answer (testAnswers st) word = w_english word)) words"
  using foldl_update_distinct[OF assms, of "[]" "\<lambda>word. given_answer (testAnswers st) word = w_english word"]
  by (simp add: handleTestSubmit_def Let_def)

lemma given_answer_trim:
  "given_answer answers word = (case map_of answers (w_id word) of None \<Rightarrow> [] | Some a \<Rightarrow> trim a)"
  by (simp add: given_answer_def split: option.splits)

lemma is_shuffle_set: "is_shuffle f \<Longrightarrow> set (f xs) = set xs"
  by (metis is_shuffle_def mset_eq_setD)

lemma is_shuffle_length: "is_shuffle f \<Longrightarrow> length (f xs) = length xs"
  by (metis is_shuffle_def mset_eq_length)

text \<open>
  Claim C9. Whatever the two shuffles do, as long as they keep the elements, the options
  generated for a word contain its \<^verbatim>\<open>english\<close>, are at most 4, and are that answer
  together with at most 3 distractors, each the \<^verbatim>\<open>english\<close> of a word of the list with
  another id.
\<close>

theorem multiple_choice_options:
  assumes "is_shuffle shuffle1" and "is_shuffle shuffle2"
  shows "w_english word
           \<in> set (generateMultipleChoiceOptions shuffle1 shuffle2 (w_english word) words (w_id word))
         \<and> length (generateMultipleChoiceOptions shuffle1 shuffle2 (w_english word) words (w_id word))
             \<le> 4
         \<and> (\<exists>distractors.
               mset (generateMultipleChoiceOptions shuffle1 shuffle2 (w_english word) words (w_id word))
                 = add_mset (w_english word) (mset distractors)
               \<and> length distractors \<le> 3
               \<and> (\<forall>d\<in>set distractors.
                     \<exists>other\<in>set words. w_id other \<noteq> w_id word \<and> w_english other = d))"
proof -
  let ?ds = "map w_english (filter (\<lambda>other. w_id other \<noteq> w_id word) words)"
  let ?sel = "take 3 (shuffle1 ?ds)"
  have g: "generateMultipleChoiceOptions shuffle1 shuffle2 (w_english word) words (w_id word)
             = shuffle2 (w_english word # ?sel)"
    by (simp add: generateMultipleChoiceOptions_def)
  have "set ?sel \<subseteq> set (shuffle1 ?ds)" by (rule set_take_subset)
  also have "\<dots> = set ?ds" by (rule is_shuffle_set[OF assms(1)])
  finally have sub: "\<forall>d\<in>set ?sel. \<exists>other\<in>set words. w_id other \<noteq> w_id word \<and> w_english other = d"
    by auto
  have m: "mset (shuffle2 (w_english word # ?sel)) = add_mset (w_english word) (mset ?sel)"
    using assms(2) by (simp add: is_shuffle_def)
  have "w_english word \<in> set (shuffle2 (w_english word # ?sel))"
    by (simp add: is_shuffle_set[OF assms(2)])
  moreover have "length (shuffle2 (w_english word # ?sel)) \<le> 4"
    by (simp add: is_shuffle_length[OF assms(2)])
  moreover have "length ?sel \<le> 3" by simp
  ultimately show ?thesis using g m sub by metis
qed

section \<open>The components on the concrete inputs\<close>

lemma example_options_run:
  "generateMultipleChoiceOptions rev rev (w_english (example_words ! 0)) example_words
     (w_id (example_words ! 0))
   = [ascii ''door'', ascii ''house'', ascii ''water'', ascii ''book'']"
  by code_simp

theorem multiple_choice_options_witness:
  "is_shuffle (rev :: jsstring list \<Rightarrow> jsstring list)
   \<and> generateMultipleChoiceOptions rev rev (w_english (example_words ! 0)) example_words
        (w_id (example_words ! 0))
       = [ascii ''door'', ascii ''house'', ascii ''water'', ascii ''book'']"
  using multiple_choice_options[of rev rev "example_words ! 0" example_words] example_options_run
  by (simp add: is_shuffle_def)

section \<open>Validation of the entries\<close>

lemma null_entry_throws:
  "JNull \<in> set elems
     \<Longrightarrow> filter_throwing (pair_present P) elems = None
         \<and> filter_throwing (sentence_present P) elems = None"
  by (induction elems) (auto simp: pair_present_def sentence_present_def split: option.splits)

text \<open>
  Claim C4, amended. In every success response each returned pair has \<^verbatim>\<open>arabic\<close> and
  \<^verbatim>\<open>english\<close> trimmed and not empty, and each returned sentence has \<^verbatim>\<open>arabic\<close> trimmed
  and not empty. An entry other than \<^verbatim>\<open>null\<close> without a truthy \<^verbatim>\<open>arabic\<close> (for a pair:
  without a truthy \<^verbatim>\<open>arabic\<close> or \<^verbatim>\<open>english\<close>) is dropped: the block gives what it gives
  for the reply without that entry. A \<^verbatim>\<open>null\<close> entry is not dropped: reading its property
  throws, the validation gives nothing, and the handler answers 500 with its parse error
  message and the raw content.
\<close>

theorem normalized_entries:
  "(snd (POST_vocabulary P basePrompt W) = Json status (WordPairs wordPairs duplicates model) \<longrightarrow>
      (\<forall>pair\<in>set wordPairs.
         trim (wp_arabic pair) = wp_arabic pair \<and> trim (wp_english pair) = wp_english pair
         \<and> length (wp_arabic pair) > 0 \<and> length (wp_english pair) > 0))
   \<and> (snd (POST_conversation P instructions W)
         = Json status' (Sentences sentences duplicates' model') \<longrightarrow>
      (\<forall>s\<in>set sentences. trim (sn_arabic s) = sn_arabic s \<and> length (sn_arabic s) > 0))
   \<and> (entry \<noteq> JNull
       \<and> \<not> (truthy P (getPropOpt (Some entry) (ascii ''arabic''))
             \<and> truthy P (getPropOpt (Some entry) (ascii ''english'')))
       \<and> reply_array P content = Some (before @ entry # after)
       \<and> reply_array P content' = Some (before @ after)
       \<longrightarrow> extract_wordPairs P existingWords content = extract_wordPairs P existingWords content')
   \<and> (entry \<noteq> JNull
       \<and> \<not> truthy P (getPropOpt (Some entry) (ascii ''arabic''))
       \<and> reply_array P content = Some (before @ entry # after)
       \<and> reply_array P content' = Some (before @ after)
       \<longrightarrow> extract_sentences P existingSentences content
            = extract_sentences P existingSentences content')
   \<and> (JNull \<in> set elems \<longrightarrow>
        validate_wordPairs P elems = None \<and> validate_sentences P elems = None)
   \<and> (Fetch r \<in> set (fst (POST_vocabulary P basePrompt W'))
       \<and> fetch W' = FetchResponse True st stt (Some data)
       \<and> reply_content P data = Inr reply
       \<and> reply_array P reply = Some elems \<and> JNull \<in> set elems
       \<longrightarrow> snd (POST_vocabulary P basePrompt W')
            = Json 500 (ErrorRaw (ascii ''Failed to parse extracted word pairs. The AI response was not in the expected format.'')
                          reply))
   \<and> (Fetch r' \<in> set (fst (POST_conversation P instructions W'))
       \<and> fetch W' = FetchResponse True st stt (Some data)
       \<and> reply_content P data = Inr reply
       \<and> reply_array P reply = Some elems \<and> JNull \<in> set elems
       \<longrightarrow> snd (POST_conversation P instructions W')
            = Json 500 (ErrorRaw (ascii ''Failed to parse extracted sentences. The AI response was not in the expected format.'')
                          reply))"
proof -
  have v: "trim (wp_arabic pair) = wp_arabic pair \<and> trim (wp_english pair) = wp_english pair
         \<and> length (wp_arabic pair) > 0 \<and> length (wp_english pair) > 0"
    if h: "snd (POST_vocabulary P basePrompt W) = Json status (WordPairs wordPairs duplicates model)"
      and p: "pair \<in> set wordPairs" for pair
  proof -
    from vocabulary_success[OF h] obtain elems validated existing where
      "validate_wordPairs P elems = Some validated"
      "wordPairs = filter (\<lambda>pair. pairKey P pair \<notin> existing) validated"
      by blast
    with p validate_wordPairs_wellformed[of P elems validated pair] show ?thesis by simp
  qed
  have c: "trim (sn_arabic s) = sn_arabic s \<and> length (sn_arabic s) > 0"
    if h: "snd (POST_conversation P instructions W)
               = Json status' (Sentences sentences duplicates' model')"
      and p: "s \<in> set sentences" for s
  proof -
    from conversation_success[OF h] obtain elems validated existing where
      "validate_sentences P elems = Some validated"
      "sentences = filter (\<lambda>s. normalizeWord P (sn_arabic s) \<notin> existing) validated"
      by blast
    with p validate_sentences_wellformed[of P elems validated s] show ?thesis by simp
  qed
  have dv: "extract_wordPairs P existingWords content = extract_wordPairs P existingWords content'"
    if "entry \<noteq> JNull
       \<and> \<not> (truthy P (getPropOpt (Some entry) (ascii ''arabic''))
             \<and> truthy P (getPropOpt (Some entry) (ascii ''english'')))
       \<and> reply_array P content = Some (before @ entry # after)
       \<and> reply_array P content' = Some (before @ after)"
    using that pair_present_falsy[of entry P]
      filter_throwing_drop[of "pair_present P" entry before after]
    by (simp add: extract_wordPairs_def validate_wordPairs_def)
  have dc: "extract_sentences P existingSentences content
            = extract_sentences P existingSentences content'"
    if "entry \<noteq> JNull
       \<and> \<not> truthy P (getPropOpt (Some entry) (ascii ''arabic''))
       \<and> reply_array P content = Some (before @ entry # after)
       \<and> reply_array P content' = Some (before @ after)"
    using that sentence_present_falsy[of entry P]
      filter_throwing_drop[of "sentence_present P" entry before after]
    by (simp add: extract_sentences_def validate_sentences_def)
  have nv: "validate_wordPairs P elems = None \<and> validate_sentences P elems = None"
    if "JNull \<in> set elems"
    using that null_entry_throws[of elems P]
    by (simp add: validate_wordPairs_def validate_sentences_def)
  have pv: "snd (POST_vocabulary P basePrompt W')
            = Json 500 (ErrorRaw (ascii ''Failed to parse extracted word pairs. The AI response was not in the expected format.'')
                          reply)"
    if a: "Fetch r \<in> set (fst (POST_vocabulary P basePrompt W'))
       \<and> fetch W' = FetchResponse True st stt (Some data)
       \<and> reply_content P data = Inr reply
       \<and> reply_array P reply = Some elems \<and> JNull \<in> set elems"
  proof -
    from a vocabulary_reply[of r P basePrompt W' st stt data reply]
    obtain fd m where "formData W' = Some fd"
      "snd (POST_vocabulary P basePrompt W')
         = respond_wordPairs P (parse_existing P (f_existingWords fd)) reply m"
      by blast
    with a nv show ?thesis
      by (simp add: respond_wordPairs_def extract_wordPairs_def)
  qed
  have pc: "snd (POST_conversation P instructions W')
            = Json 500 (ErrorRaw (ascii ''Failed to parse extracted sentences. The AI response was not in the expected format.'')
                          reply)"
    if a: "Fetch r' \<in> set (fst (POST_conversation P instructions W'))
       \<and> fetch W' = FetchResponse True st stt (Some data)
       \<and> reply_content P data = Inr reply
       \<and> reply_array P reply = Some elems \<and> JNull \<in> set elems"
  proof -
    from a conversation_reply[of r' P instructions W' st stt data reply]
    obtain fd m where "formData W' = Some fd"
      "snd (POST_conversation P instructions W')
         = respond_sentences P (parse_existing P (f_existingSentences fd)) reply m"
      by blast
    with a nv show ?thesis
      by (simp add: respond_sentences_def extract_sentences_def)
  qed
  from v c dv dc nv pv pc show ?thesis by blast
qed

lemma example_entry_runs:
  "reply_array example_platform (JStr example_entry_text) = Some ([] @ example_entry # [])"
  "reply_array example_platform (JStr (ascii ''[]'')) = Some ([] @ [])"
  "extract_wordPairs example_platform example_existing (JStr (ascii ''[]'')) = Some ([], [])"
  "extract_sentences example_platform example_existing (JStr (ascii ''[]'')) = Some ([], [])"
  by code_simp+

lemma example_null_traces:
  "Fetch example_request
     \<in> set (fst (POST_vocabulary example_platform (ascii ''BASE'') (example_world (ascii ''[null]''))))"
  "Fetch example_request
     \<in> set (fst (POST_conversation example_platform (ascii ''BASE'') (example_world (ascii ''[null]''))))"
  by code_simp+

theorem normalized_entries_witness:
  "snd (POST_vocabulary example_platform (ascii ''BASE'') (example_world example_content))
     = Json 200 (WordPairs [\<lparr>wp_arabic = ascii ''qalam'', wp_english = ascii ''pen''\<rparr>] []
                   (JStr (ascii ''openai/gpt-4o'')))
   \<and> snd (POST_conversation example_platform (ascii ''BASE'') (example_world example_content))
       = Json 200 (Sentences [\<lparr>sn_arabic = ascii ''qalam'', sn_english = Some (ascii ''pen'')\<rparr>]
                     [\<lparr>sn_arabic = ascii ''Kitab'', sn_english = Some (ascii ''Book'')\<rparr>]
                     (JStr (ascii ''openai/gpt-4o'')))
   \<and> trim (ascii ''qalam'') = ascii ''qalam'' \<and> trim (ascii ''pen'') = ascii ''pen''
   \<and> example_entry \<noteq> JNull
   \<and> \<not> truthy example_platform (getPropOpt (Some example_entry) (ascii ''arabic''))
   \<and> reply_array example_platform (JStr example_entry_text) = Some ([] @ example_entry # [])
   \<and> reply_array example_platform (JStr (ascii ''[]'')) = Some ([] @ [])
   \<and> extract_wordPairs example_platform example_existing (JStr example_entry_text) = Some ([], [])
   \<and> extract_sentences example_platform example_existing (JStr example_entry_text) = Some ([], [])
   \<and> JNull \<in> set [JNull :: jsstring json]
   \<and> validate_wordPairs example_platform [JNull] = None
   \<and> validate_sentences example_platform [JNull] = None
   \<and> reply_array example_platform (JStr (ascii ''[null]'')) = Some [JNull]
   \<and> snd (POST_vocabulary example_platform (ascii ''BASE'') (example_world (ascii ''[null]'')))
       = Json 500 (ErrorRaw (ascii ''Failed to parse extracted word pairs. The AI response was not in the expected format.'')
                     (JStr (ascii ''[null]'')))
   \<and> snd (POST_conversation example_platform (ascii ''BASE'') (example_world (ascii ''[null]'')))
       = Json 500 (ErrorRaw (ascii ''Failed to parse extracted sentences. The AI response was not in the expected format.'')
                     (JStr (ascii ''[null]'')))"
  using normalized_entries[of example_platform "ascii ''BASE''" "example_world example_content" 200
      "[\<lparr>wp_arabic = ascii ''qalam'', wp_english = ascii ''pen''\<rparr>]" "[]"
      "JStr (ascii ''openai/gpt-4o'')" "ascii ''BASE''" 200
      "[\<lparr>sn_arabic = ascii ''qalam'', sn_english = Some (ascii ''pen'')\<rparr>]"
      "[\<lparr>sn_arabic = ascii ''Kitab'', sn_english = Some (ascii ''Book'')\<rparr>]"
      "JStr (ascii ''openai/gpt-4o'')" example_entry "JStr example_entry_text" "[]" "[]"
      "JStr (ascii ''[]'')" example_existing example_existing "[JNull]" example_request
      "example_world (ascii ''[null]'')" "ascii ''200''" "ascii ''OK''"
      "example_completion (ascii ''[null]'')" "JStr (ascii ''[null]'')" example_request]
    example_vocabulary_run example_conversation_run example_entry_runs example_null_traces
    example_reply_content[of "ascii ''[null]''"] example_null_runs(1)
  by (simp add: example_entry_def ascii_def)

section \<open>The request that is sent\<close>

lemma sent_request_form:
  "(Fetch r \<in> set (fst (POST_vocabulary P basePrompt W)) \<longrightarrow>
      (\<exists>fd upl.
         formData W = Some fd \<and> f_image fd = Some upl
         \<and> body_messages r =
             [\<lparr>msg_role = ascii ''user'',
               msg_content =
                 [TextPart (case f_customPrompt fd of
                              None \<Rightarrow> basePrompt
                            | Some p \<Rightarrow> if trim p = [] then basePrompt else trim p),
                  ImageUrlPart (ascii ''data:'' @ file_type upl @ ascii '';base64,''
                                @ base64 P (file_bytes upl))]\<rparr>]
         \<and> body_temperature r = 0))
   \<and> (Fetch r' \<in> set (fst (POST_conversation P instructions W)) \<longrightarrow>
      (\<exists>fd upl lessonIdStr lessonId lesson.
         formData W = Some fd \<and> f_image fd = Some upl
         \<and> f_lessonId fd = Some lessonIdStr \<and> parseInt P lessonIdStr = Some lessonId
         \<and> db_lesson W lessonId = Some lesson
         \<and> body_messages r' =
             [\<lparr>msg_role = ascii ''user'',
               msg_content =
                 [TextPart
                    (let unitLessons = db_vocabulary_lessons W (lesson_unitId lesson);
                         vocabWords = (if length unitLessons > 0
                                       then db_vocabulary_words W (map lesson_id unitLessons)
                                       else []);
                         basePrompt = instructions @ vocabularyContext unitLessons vocabWords
                     in case f_customPrompt fd of
                          None \<Rightarrow> basePrompt
                        | Some p \<Rightarrow> if trim p = [] then basePrompt else trim p),
                  ImageUrlPart (ascii ''data:'' @ file_type upl @ ascii '';base64,''
                                @ base64 P (file_bytes upl))]\<rparr>]
         \<and> body_temperature r' = 0))"
proof (intro conjI impI)
  assume "Fetch r \<in> set (fst (POST_vocabulary P basePrompt W))"
  from vocabulary_sent[OF this] obtain fd upl config key where
    "formData W = Some fd" "f_image fd = Some upl" "getOpenRouterConfig W = Some config"
    "r = chat_completion W key (choose_model (f_model fd) (supportedModels config))
           (messages (promptText (f_customPrompt fd) basePrompt) (file_type upl)
              (base64 P (file_bytes upl)))"
    by blast
  then show "\<exists>fd upl.
         formData W = Some fd \<and> f_image fd = Some upl
         \<and> body_messages r =
             [\<lparr>msg_role = ascii ''user'',
               msg_content =
                 [TextPart (case f_customPrompt fd of
                              None \<Rightarrow> basePrompt
                            | Some p \<Rightarrow> if trim p = [] then basePrompt else trim p),
                  ImageUrlPart (ascii ''data:'' @ file_type upl @ ascii '';base64,''
                                @ base64 P (file_bytes upl))]\<rparr>]
         \<and> body_temperature r = 0"
    by (auto simp: chat_completion_def messages_def promptText_def split: option.splits)
next
  assume "Fetch r' \<in> set (fst (POST_conversation P instructions W))"
  from conversation_sent[OF this] obtain fd upl lessonIdStr lessonId lesson config key where
    "formData W = Some fd" "f_image fd = Some upl"
    "f_lessonId fd = Some lessonIdStr" "parseInt P lessonIdStr = Some lessonId"
    "db_lesson W lessonId = Some lesson" "getOpenRouterConfig W = Some config"
    "r' = chat_completion W key (choose_model (f_model fd) (supportedModels config))
                   (messages
                      (promptText (f_customPrompt fd)
                         (instructions
                          @ vocabularyContext (db_vocabulary_lessons W (lesson_unitId lesson))
                              (if length (db_vocabulary_lessons W (lesson_unitId lesson)) > 0
                               then db_vocabulary_words W
                                      (map lesson_id (db_vocabulary_lessons W (lesson_unitId lesson)))
                               else [])))
                      (file_type upl) (base64 P (file_bytes upl)))"
    by blast
  then show "\<exists>fd upl lessonIdStr lessonId lesson.
         formData W = Some fd \<and> f_image fd = Some upl
         \<and> f_lessonId fd = Some lessonIdStr \<and> parseInt P lessonIdStr = Some lessonId
         \<and> db_lesson W lessonId = Some lesson
         \<and> body_messages r' =
             [\<lparr>msg_role = ascii ''user'',
               msg_content =
                 [TextPart
                    (let unitLessons = db_vocabulary_lessons W (lesson_unitId lesson);
                         vocabWords = (if length unitLessons > 0
                                       then db_vocabulary_words W (map lesson_id unitLessons)
                                       else []);
                         basePrompt = instructions @ vocabularyContext unitLessons vocabWords
                     in case f_customPrompt fd of
                          None \<Rightarrow> basePrompt
                        | Some p \<Rightarrow> if trim p = [] then basePrompt else trim p),
                  ImageUrlPart (ascii ''data:'' @ file_type upl @ ascii '';base64,''
                                @ base64 P (file_bytes upl))]\<rparr>]
         \<and> body_temperature r' = 0"
    by (auto simp: chat_completion_def messages_def promptText_def Let_def split: option.splits)
qed


text \<open>
  Claim C5. A request that passes the checks before the \<^verbatim>\<open>fetch\<close> is sent: the handler's
  trace ends with one \<^verbatim>\<open>Fetch\<close>. Every request a handler sends carries one message, of
  role \<^verbatim>\<open>user\<close>, whose content is a text part and an image part, and a temperature of 0.
  The text is the trimmed custom prompt when one was given and is not empty after
  trimming, and the built-in prompt otherwise; the image is the data URL of the file's
  MIME type with the base64 text of the file.
\<close>

theorem outgoing_request:
  "(requireAdmin W \<and> formData W = Some fd \<and> f_image fd = Some upl
      \<and> startsWith (file_type upl) (ascii ''image/'')
      \<and> getOpenRouterConfig W = Some config \<and> apiKey config = Some key \<and> key \<noteq> []
      \<longrightarrow> (\<exists>request.
             fst (POST_vocabulary P basePrompt W)
               = [RequireAdmin, ReadFormData, GetOpenRouterConfig, Fetch request]
             \<and> body_messages request =
                 [\<lparr>msg_role = ascii ''user'',
                   msg_content =
                     [TextPart (case f_customPrompt fd of
                                  None \<Rightarrow> basePrompt
                                | Some p \<Rightarrow> if trim p = [] then basePrompt else trim p),
                      ImageUrlPart (ascii ''data:'' @ file_type upl @ ascii '';base64,''
                                    @ base64 P (file_bytes upl))]\<rparr>]
             \<and> body_temperature request = 0))
   \<and> (requireAdmin W \<and> formData W = Some fd \<and> f_image fd = Some upl
      \<and> f_lessonId fd = Some lessonIdStr \<and> lessonIdStr \<noteq> []
      \<and> parseInt P lessonIdStr = Some lessonId
      \<and> startsWith (file_type upl) (ascii ''image/'')
      \<and> db_lesson W lessonId = Some lesson
      \<and> getOpenRouterConfig W = Some config \<and> apiKey config = Some key \<and> key \<noteq> []
      \<longrightarrow> (\<exists>request.
             last (fst (POST_conversation P instructions W)) = Fetch request
             \<and> Fetch request \<in> set (fst (POST_conversation P instructions W))
             \<and> body_messages request =
                 [\<lparr>msg_role = ascii ''user'',
                   msg_content =
                     [TextPart
                        (let unitLessons = db_vocabulary_lessons W (lesson_unitId lesson);
                             vocabWords = (if length unitLessons > 0
                                           then db_vocabulary_words W (map lesson_id unitLessons)
                                           else []);
                             basePrompt = instructions @ vocabularyContext unitLessons vocabWords
                         in case f_customPrompt fd of
                              None \<Rightarrow> basePrompt
                            | Some p \<Rightarrow> if trim p = [] then basePrompt else trim p),
                      ImageUrlPart (ascii ''data:'' @ file_type upl @ ascii '';base64,''
                                    @ base64 P (file_bytes upl))]\<rparr>]
             \<and> body_temperature request = 0))
   \<and> (Fetch r \<in> set (fst (POST_vocabulary P basePrompt W')) \<longrightarrow>
      (\<exists>fd upl.
         formData W' = Some fd \<and> f_image fd = Some upl
         \<and> body_messages r =
             [\<lparr>msg_role = ascii ''user'',
               msg_content =
                 [TextPart (case f_customPrompt fd of
                              None \<Rightarrow> basePrompt
                            | Some p \<Rightarrow> if trim p = [] then basePrompt else trim p),
                  ImageUrlPart (ascii ''data:'' @ file_type upl @ ascii '';base64,''
                                @ base64 P (file_bytes upl))]\<rparr>]
         \<and> body_temperature r = 0))
   \<and> (Fetch r' \<in> set (fst (POST_conversation P instructions W')) \<longrightarrow>
      (\<exists>fd upl lessonIdStr lessonId lesson.
         formData W' = Some fd \<and> f_image fd = Some upl
         \<and> f_lessonId fd = Some lessonIdStr \<and> parseInt P lessonIdStr = Some lessonId
         \<and> db_lesson W' lessonId = Some lesson
         \<and> body_messages r' =
             [\<lparr>msg_role = ascii ''user'',
               msg_content =
                 [TextPart
                    (let unitLessons = db_vocabulary_lessons W' (lesson_unitId lesson);
                         vocabWords = (if length unitLessons > 0
                                       then db_vocabulary_words W' (map lesson_id unitLessons)
                                       else []);
                         basePrompt = instructions @ vocabularyContext unitLessons vocabWords
                     in case f_customPrompt fd of
                          None \<Rightarrow> basePrompt
                        | Some p \<Rightarrow> if trim p = [] then basePrompt else trim p),
                  ImageUrlPart (ascii ''data:'' @ file_type upl @ ascii '';base64,''
                                @ base64 P (file_bytes upl))]\<rparr>]
         \<and> body_temperature r' = 0))"
proof -
  have v: "\<exists>request.
             fst (POST_vocabulary P basePrompt W)
               = [RequireAdmin, ReadFormData, GetOpenRouterConfig, Fetch request]
             \<and> body_messages request =
                 [\<lparr>msg_role = ascii ''user'',
                   msg_content =
                     [TextPart (case f_customPrompt fd of
                                  None \<Rightarrow> basePrompt
                                | Some p \<Rightarrow> if trim p = [] then basePrompt else trim p),
                      ImageUrlPart (ascii ''data:'' @ file_type upl @ ascii '';base64,''
                                    @ base64 P (file_bytes upl))]\<rparr>]
             \<and> body_temperature request = 0"
    if "requireAdmin W \<and> formData W = Some fd \<and> f_image fd = Some upl
      \<and> startsWith (file_type upl) (ascii ''image/'')
      \<and> getOpenRouterConfig W = Some config \<and> apiKey config = Some key \<and> key \<noteq> []"
    using that
    by (auto simp: POST_vocabulary_def Let_def chat_completion_def messages_def promptText_def
             split: option.splits)
  have c: "\<exists>request.
             last (fst (POST_conversation P instructions W)) = Fetch request
             \<and> Fetch request \<in> set (fst (POST_conversation P instructions W))
             \<and> body_messages request =
                 [\<lparr>msg_role = ascii ''user'',
                   msg_content =
                     [TextPart
                        (let unitLessons = db_vocabulary_lessons W (lesson_unitId lesson);
                             vocabWords = (if length unitLessons > 0
                                           then db_vocabulary_words W (map lesson_id unitLessons)
                                           else []);
                             basePrompt = instructions @ vocabularyContext unitLessons vocabWords
                         in case f_customPrompt fd of
                              None \<Rightarrow> basePrompt
                            | Some p \<Rightarrow> if trim p = [] then basePrompt else trim p),
                      ImageUrlPart (ascii ''data:'' @ file_type upl @ ascii '';base64,''
                                    @ base64 P (file_bytes upl))]\<rparr>]
             \<and> body_temperature request = 0"
    if "requireAdmin W \<and> formData W = Some fd \<and> f_image fd = Some upl
      \<and> f_lessonId fd = Some lessonIdStr \<and> lessonIdStr \<noteq> []
      \<and> parseInt P lessonIdStr = Some lessonId
      \<and> startsWith (file_type upl) (ascii ''image/'')
      \<and> db_lesson W lessonId = Some lesson
      \<and> getOpenRouterConfig W = Some config \<and> apiKey config = Some key \<and> key \<noteq> []"
    using that
    by (auto simp: POST_conversation_def Let_def chat_completion_def messages_def promptText_def
             split: option.splits)
  from v c sent_request_form[of r P basePrompt W' r' instructions] show ?thesis by blast
qed

lemma example_prompt_runs:
  "fst (POST_vocabulary example_platform (ascii ''BASE'') example_plain_world)
     = [RequireAdmin, ReadFormData, GetOpenRouterConfig, Fetch example_base_request]"
  "fst (POST_vocabulary example_platform (ascii ''BASE'') example_blank_world)
     = [RequireAdmin, ReadFormData, GetOpenRouterConfig, Fetch example_base_request]"
  "fst (POST_conversation example_platform (ascii ''BASE'') example_plain_world)
     = [RequireAdmin, ReadFormData, SelectLesson 7, SelectVocabularyLessons 3,
        GetOpenRouterConfig, Fetch example_base_request]"
  "fst (POST_conversation example_platform (ascii ''BASE'') example_blank_world)
     = [RequireAdmin, ReadFormData, SelectLesson 7, SelectVocabularyLessons 3,
        GetOpenRouterConfig, Fetch example_base_request]"
  by code_simp+

theorem outgoing_request_witness:
  "fst (POST_vocabulary example_platform (ascii ''BASE'') (example_world example_content))
     = [RequireAdmin, ReadFormData, GetOpenRouterConfig, Fetch example_request]
   \<and> Fetch example_request
     \<in> set (fst (POST_conversation example_platform (ascii ''BASE'') (example_world example_content)))
   \<and> f_customPrompt example_form = Some (ascii '' List the words '')
   \<and> body_messages example_request
       = [\<lparr>msg_role = ascii ''user'',
           msg_content = [TextPart (ascii ''List the words''),
                          ImageUrlPart (ascii ''data:image/png;base64,iVBO'')]\<rparr>]
   \<and> body_temperature example_request = 0
   \<and> formData example_plain_world = Some (example_form\<lparr>f_customPrompt := None\<rparr>)
   \<and> fst (POST_vocabulary example_platform (ascii ''BASE'') example_plain_world)
       = [RequireAdmin, ReadFormData, GetOpenRouterConfig, Fetch example_base_request]
   \<and> last (fst (POST_conversation example_platform (ascii ''BASE'') example_plain_world))
       = Fetch example_base_request
   \<and> formData example_blank_world = Some (example_form\<lparr>f_customPrompt := Some (ascii ''   '')\<rparr>)
   \<and> fst (POST_vocabulary example_platform (ascii ''BASE'') example_blank_world)
       = [RequireAdmin, ReadFormData, GetOpenRouterConfig, Fetch example_base_request]
   \<and> last (fst (POST_conversation example_platform (ascii ''BASE'') example_blank_world))
       = Fetch example_base_request
   \<and> body_messages example_base_request
       = [\<lparr>msg_role = ascii ''user'',
           msg_content = [TextPart (ascii ''BASE''),
                          ImageUrlPart (ascii ''data:image/png;base64,iVBO'')]\<rparr>]
   \<and> body_temperature example_base_request = 0"
  using outgoing_request[of example_plain_world "example_form\<lparr>f_customPrompt := None\<rparr>"
      "\<lparr>file_type = ascii ''image/png'', file_bytes = [0x89, 0x50, 0x4E]\<rparr>"
      "\<lparr>apiKey = Some (ascii ''sk-example''), supportedModels = []\<rparr>" "ascii ''sk-example''"
      example_platform "ascii ''BASE''" "ascii ''7''" 7 "\<lparr>lesson_id = 7, lesson_unitId = 3\<rparr>"
      "ascii ''BASE''" example_request "example_world example_content" example_request]
    outgoing_request[of example_blank_world "example_form\<lparr>f_customPrompt := Some (ascii ''   '')\<rparr>"
      "\<lparr>file_type = ascii ''image/png'', file_bytes = [0x89, 0x50, 0x4E]\<rparr>"
      "\<lparr>apiKey = Some (ascii ''sk-example''), supportedModels = []\<rparr>" "ascii ''sk-example''"
      example_platform "ascii ''BASE''" "ascii ''7''" 7 "\<lparr>lesson_id = 7, lesson_unitId = 3\<rparr>"
      "ascii ''BASE''" example_request "example_world example_content" example_request]
    example_vocabulary_run example_conversation_run example_prompt_runs
  by (simp add: example_request_def example_base_request_def example_form_def
        example_plain_world_def example_blank_world_def example_world_def)

section \<open>The submitted test\<close>

lemma submitted_results:
  assumes "distinct (map w_id words)"
  shows "(\<forall>word\<in>set words.
            marked_correct (handleTestSubmit words st) word
            \<longleftrightarrow> (case map_of (testAnswers st) (w_id word) of
                   None \<Rightarrow> w_english word = []
                 | Some answer \<Rightarrow> trim answer = w_english word))
         \<and> correctCount (handleTestSubmit words st)
             = length (filter (marked_correct (handleTestSubmit words st)) words)
         \<and> totalWords words = length words"
proof -
  let ?c = "\<lambda>word. given_answer (testAnswers st) word = w_english word"
  have r: "testResults (handleTestSubmit words st) = map (\<lambda>word. (w_id word, ?c word)) words"
    by (rule testResults_submit[OF assms])
  have m: "marked_correct (handleTestSubmit words st) word \<longleftrightarrow> ?c word" if "word \<in> set words" for word
    using map_of_keyed[OF assms that, of ?c] by (simp add: marked_correct_def r)
  have 1: "\<forall>word\<in>set words.
            marked_correct (handleTestSubmit words st) word
            \<longleftrightarrow> (case map_of (testAnswers st) (w_id word) of
                   None \<Rightarrow> w_english word = []
                 | Some answer \<Rightarrow> trim answer = w_english word)"
    using m by (auto simp: given_answer_trim split: option.splits)
  have "correctCount (handleTestSubmit words st) = length (filter ?c words)"
    by (simp add: correctCount_def r filter_map comp_def)
  also have "filter ?c words = filter (marked_correct (handleTestSubmit words st)) words"
    using m by (intro filter_cong) auto
  finally have 2: "correctCount (handleTestSubmit words st)
             = length (filter (marked_correct (handleTestSubmit words st)) words)" .
  from 1 2 show ?thesis by (simp add: totalWords_def)
qed


lemma step_testAnswers:
  assumes "distinct (map fst (testAnswers st))"
    and "fst ` set (testAnswers st) \<subseteq> w_id ` set words"
    and "offered words ev"
  shows "distinct (map fst (testAnswers (step shuffle1 shuffle2 words st ev)))
         \<and> fst ` set (testAnswers (step shuffle1 shuffle2 words st ev)) \<subseteq> w_id ` set words"
proof (cases ev)
  case (TestAnswer wordId answer)
  with assms show ?thesis
    by (auto simp: step_def handleTestAnswer_def offered_def distinct_update dom_update)
next
  case (ModeButton m)
  with assms show ?thesis by (cases m) (auto simp: step_def selectMode_def)
qed (use assms in \<open>auto simp: step_def handleNext_def handlePrevious_def handleFlip_def
       handleTestSubmit_def handleTestReset_def generateTestOptions_def\<close>)

lemma run_testAnswers:
  assumes "\<forall>ev\<in>set evs. offered words ev"
  shows "distinct (map fst (testAnswers (run shuffle1 shuffle2 words evs)))
         \<and> fst ` set (testAnswers (run shuffle1 shuffle2 words evs)) \<subseteq> w_id ` set words"
  using assms
proof (induction evs rule: rev_induct)
  case Nil
  then show ?case by (simp add: run_def initial_flashcards_def)
next
  case (snoc ev evs)
  have "run shuffle1 shuffle2 words (evs @ [ev])
          = step shuffle1 shuffle2 words (run shuffle1 shuffle2 words evs) ev"
    by (simp add: run_def)
  with snoc step_testAnswers[of "run shuffle1 shuffle2 words evs" words ev shuffle1 shuffle2]
  show ?case by simp
qed

lemma all_answered:
  assumes ids: "distinct (map w_id words)"
    and keys: "distinct (map fst answers)"
    and sub: "fst ` set answers \<subseteq> w_id ` set words"
    and len: "\<not> length answers < length words"
    and w: "word \<in> set words"
  shows "\<exists>answer. map_of answers (w_id word) = Some answer"
proof -
  have "card (fst ` set answers) = length answers"
    using keys distinct_card[of "map fst answers"] by simp
  moreover have "card (w_id ` set words) = length words"
    using ids distinct_card[of "map w_id words"] by simp
  ultimately have "card (w_id ` set words) \<le> card (fst ` set answers)"
    using len by simp
  with sub have "fst ` set answers = w_id ` set words"
    by (intro card_seteq) auto
  with w have "w_id word \<in> fst ` set answers" by auto
  then show ?thesis
    by (metis map_of_eq_None_iff not_Some_eq)
qed

text \<open>
  Claim C6. The word ids being distinct, on every state the component reaches in which
  the Submit button is enabled, submitting the test marks a word correct exactly when
  its trimmed selected answer equals its \<^verbatim>\<open>english\<close>, a word without an answer is not
  marked correct, and the score shows the number of words marked correct and the
  number of words.
\<close>

theorem test_score:
  assumes "distinct (map w_id words)"
    and "\<forall>ev\<in>set evs. offered words ev"
    and "\<not> submitDisabled words (run shuffle1 shuffle2 words evs)"
  shows "(\<forall>word\<in>set words.
            marked_correct (handleTestSubmit words (run shuffle1 shuffle2 words evs)) word
            \<longleftrightarrow> (\<exists>answer.
                   map_of (testAnswers (run shuffle1 shuffle2 words evs)) (w_id word) = Some answer
                   \<and> trim answer = w_english word))
         \<and> (\<forall>word\<in>set words.
               map_of (testAnswers (run shuffle1 shuffle2 words evs)) (w_id word) = None
               \<longrightarrow> \<not> marked_correct (handleTestSubmit words (run shuffle1 shuffle2 words evs)) word)
         \<and> correctCount (handleTestSubmit words (run shuffle1 shuffle2 words evs))
             = length (filter (marked_correct (handleTestSubmit words (run shuffle1 shuffle2 words evs)))
                         words)
         \<and> totalWords words = length words"
proof -
  define st where "st = run shuffle1 shuffle2 words evs"
  have inv: "distinct (map fst (testAnswers st))" "fst ` set (testAnswers st) \<subseteq> w_id ` set words"
    using run_testAnswers[OF assms(2), of shuffle1 shuffle2] by (simp_all add: st_def)
  have en: "\<not> length (testAnswers st) < length words"
    using assms(3) by (simp add: submitDisabled_def st_def)
  have ans: "\<exists>answer. map_of (testAnswers st) (w_id word) = Some answer" if "word \<in> set words" for word
    by (rule all_answered[OF assms(1) inv en that])
  note g = submitted_results[OF assms(1), of st]
  have 1: "\<forall>word\<in>set words.
            marked_correct (handleTestSubmit words st) word
            \<longleftrightarrow> (\<exists>answer. map_of (testAnswers st) (w_id word) = Some answer
                           \<and> trim answer = w_english word)"
  proof
    fix word assume w: "word \<in> set words"
    from ans[OF w] obtain a where a: "map_of (testAnswers st) (w_id word) = Some a" by blast
    from g w a show "marked_correct (handleTestSubmit words st) word
            \<longleftrightarrow> (\<exists>answer. map_of (testAnswers st) (w_id word) = Some answer
                           \<and> trim answer = w_english word)"
      by auto
  qed
  have 2: "\<forall>word\<in>set words.
               map_of (testAnswers st) (w_id word) = None
               \<longrightarrow> \<not> marked_correct (handleTestSubmit words st) word"
    using ans by fastforce
  from 1 2 g show ?thesis unfolding st_def by blast
qed

lemma example_submit_run:
  "distinct (map w_id example_words)"
  "\<forall>ev\<in>set example_events. offered example_words ev"
  "\<not> submitDisabled example_words (run rev rev example_words example_events)"
  "testAnswers (run rev rev example_words example_events)
     = [(1, ascii ''book''), (2, ascii ''house''), (3, ascii ''door''), (4, ascii ''water''),
        (5, ascii ''water'')]"
  "testResults (handleTestSubmit example_words (run rev rev example_words example_events))
     = [(1, True), (2, False), (3, True), (4, False), (5, True)]"
  "correctCount (handleTestSubmit example_words (run rev rev example_words example_events)) = 3"
  "totalWords example_words = 5"
  by code_simp+

theorem test_score_witness:
  "distinct (map w_id example_words)
   \<and> list_all (offered example_words) example_events
   \<and> \<not> submitDisabled example_words (run rev rev example_words example_events)
   \<and> testAnswers (run rev rev example_words example_events)
       = [(1, ascii ''book''), (2, ascii ''house''), (3, ascii ''door''), (4, ascii ''water''),
          (5, ascii ''water'')]
   \<and> testResults (handleTestSubmit example_words (run rev rev example_words example_events))
       = [(1, True), (2, False), (3, True), (4, False), (5, True)]
   \<and> correctCount (handleTestSubmit example_words (run rev rev example_words example_events)) = 3
   \<and> totalWords example_words = 5"
  using test_score[of example_words example_events rev rev] example_submit_run
  by (simp add: list_all_iff)

section \<open>Play All\<close>

lemma spoken_next:
  assumes "j < length ps"
  shows "map (\<lambda>s. (sentence_text lang s, language_tag lang)) (take j ps)
           @ [(sentence_text lang (ps ! j), language_tag lang)]
         = map (\<lambda>s. (sentence_text lang s, language_tag lang)) (take (Suc j) ps)"
  using assms by (simp add: take_Suc_conv_app_nth)

lemma in_playAll_I:
  assumes "j \<le> length ps"
    and "spoken st = map (\<lambda>s. (sentence_text lang s, language_tag lang)) (take j ps)"
    and "playAll_phase lang ps j st"
  shows "in_playAll lang ps st"
  using assms unfolding in_playAll_def by blast

text \<open>A call of \<^verbatim>\<open>playSentenceSequentially\<close> for sentence \<open>j\<close>, nothing being owed.\<close>

lemma play_step_phase:
  assumes j: "j \<le> length ps"
    and sp: "spoken st = map (\<lambda>s. (sentence_text lang s, language_tag lang)) (take j ps)"
    and idle: "onvoiceschanged st = None" "speaking st = None"
  shows "in_playAll lang ps ((playSentenceSequentially lang ps j st)\<lparr>timeoutRef := None\<rparr>)"
proof (cases "shouldContinuePlaying st \<and> j < length ps \<and> speechSynthesis st")
  case False
  then have "spoken ((playSentenceSequentially lang ps j st)\<lparr>timeoutRef := None\<rparr>) = spoken st"
    "onvoiceschanged ((playSentenceSequentially lang ps j st)\<lparr>timeoutRef := None\<rparr>) = None"
    "speaking ((playSentenceSequentially lang ps j st)\<lparr>timeoutRef := None\<rparr>) = None"
    "timeoutRef ((playSentenceSequentially lang ps j st)\<lparr>timeoutRef := None\<rparr>) = None"
    using idle by (auto simp: playSentenceSequentially_def playAudio_def Let_def)
  then show ?thesis
    using j sp by (intro in_playAll_I[of j]) (simp_all add: playAll_phase_def)
next
  case True
  show ?thesis
  proof (cases "voices st = 0")
    case v: True
    have "spoken ((playSentenceSequentially lang ps j st)\<lparr>timeoutRef := None\<rparr>) = spoken st"
      "onvoiceschanged ((playSentenceSequentially lang ps j st)\<lparr>timeoutRef := None\<rparr>)
         = Some (sentence_utterance lang ps j)"
      "speaking ((playSentenceSequentially lang ps j st)\<lparr>timeoutRef := None\<rparr>) = None"
      "timeoutRef ((playSentenceSequentially lang ps j st)\<lparr>timeoutRef := None\<rparr>) = None"
      using True v idle
      by (simp_all add: playSentenceSequentially_def playAudio_def cancel_def Let_def
            sentence_utterance_def)
    then show ?thesis
      using j sp True by (intro in_playAll_I[of j]) (simp_all add: playAll_phase_def)
  next
    case v: False
    have "spoken ((playSentenceSequentially lang ps j st)\<lparr>timeoutRef := None\<rparr>)
            = spoken st @ [(sentence_text lang (ps ! j), language_tag lang)]"
      "onvoiceschanged ((playSentenceSequentially lang ps j st)\<lparr>timeoutRef := None\<rparr>) = None"
      "speaking ((playSentenceSequentially lang ps j st)\<lparr>timeoutRef := None\<rparr>)
         = Some (sentence_utterance lang ps j)"
      "timeoutRef ((playSentenceSequentially lang ps j st)\<lparr>timeoutRef := None\<rparr>) = None"
      using True v idle
      by (simp_all add: playSentenceSequentially_def playAudio_def cancel_def speak_def Let_def
            sentence_utterance_def)
    then show ?thesis
      using True sp spoken_next[of j ps lang]
      by (intro in_playAll_I[of "Suc j"]) (simp_all add: playAll_phase_def)
  qed
qed

lemma in_playAll_start:
  "in_playAll lang (filter (playable lang) (sortedSentences sentences))
     (handlePlayAll lang sentences (initial_player synthesis n))"
proof -
  let ?ps = "filter (playable lang) (sortedSentences sentences)"
  show ?thesis
  proof (cases "?ps = []")
    case True
    then have "handlePlayAll lang sentences (initial_player synthesis n) = initial_player synthesis n"
      by (simp add: handlePlayAll_def initial_player_def)
    then show ?thesis
      by (intro in_playAll_I[of 0]) (simp_all add: initial_player_def playAll_phase_def)
  next
    case False
    define st where "st = (initial_player synthesis n)
        \<lparr>shouldContinuePlaying := True, isPlayingAll := True, currentPlayAllIndex := 0,
         playAllQueue := map cs_id ?ps\<rparr>"
    have h: "handlePlayAll lang sentences (initial_player synthesis n)
               = playSentenceSequentially lang ?ps 0 st"
      using False by (simp add: handlePlayAll_def initial_player_def st_def Let_def)
    have t: "(playSentenceSequentially lang ?ps 0 st)\<lparr>timeoutRef := None\<rparr>
               = playSentenceSequentially lang ?ps 0 st"
      by (simp add: playSentenceSequentially_def playAudio_def cancel_def speak_def Let_def
            st_def initial_player_def)
    have "in_playAll lang ?ps ((playSentenceSequentially lang ?ps 0 st)\<lparr>timeoutRef := None\<rparr>)"
      by (rule play_step_phase) (simp_all add: st_def initial_player_def)
    with h t show ?thesis by simp
  qed
qed

lemma in_playAll_browser:
  assumes "in_playAll lang ps st"
  shows "in_playAll lang ps (browser lang st ev)"
proof -
  from assms obtain j where j: "j \<le> length ps"
    and sp: "spoken st = map (\<lambda>s. (sentence_text lang s, language_tag lang)) (take j ps)"
    and ph: "playAll_phase lang ps j st"
    unfolding in_playAll_def by blast
  show ?thesis
  proof (cases ev)
    case (VoicesChanged n)
    show ?thesis
    proof (cases "onvoiceschanged st")
      case None
      with VoicesChanged j sp ph show ?thesis
        by (intro in_playAll_I[of j]) (auto simp: browser_def playAll_phase_def)
    next
      case (Some u)
      with ph have d: "j < length ps" "u = sentence_utterance lang ps j"
        "speaking st = None" "timeoutRef st = None"
        by (auto simp: playAll_phase_def)
      have "browser lang st ev = speak u (st\<lparr>voices := n, onvoiceschanged := None\<rparr>)"
        using VoicesChanged Some by (simp add: browser_def)
      then show ?thesis
        using d sp spoken_next[OF d(1), of lang]
        by (intro in_playAll_I[of "Suc j"])
           (simp_all add: speak_def playAll_phase_def sentence_utterance_def)
    qed
  next
    case UtteranceEnded
    show ?thesis
    proof (cases "speaking st")
      case None
      with UtteranceEnded j sp ph show ?thesis
        by (intro in_playAll_I[of j]) (auto simp: browser_def)
    next
      case (Some u)
      with ph have d: "0 < j" "u = sentence_utterance lang ps (j - 1)"
        "onvoiceschanged st = None" "timeoutRef st = None"
        by (auto simp: playAll_phase_def)
      have "browser lang st ev = onEnd (PlayNext ps (j - 1)) (st\<lparr>speaking := None\<rparr>)"
        using UtteranceEnded Some d by (simp add: browser_def sentence_utterance_def)
      then show ?thesis
        using d j sp
        by (intro in_playAll_I[of j]) (auto simp: onEnd_def playAll_phase_def)
    qed
  next
    case TimerFired
    show ?thesis
    proof (cases "timeoutRef st")
      case None
      with TimerFired j sp ph show ?thesis
        by (intro in_playAll_I[of j]) (auto simp: browser_def)
    next
      case (Some cb)
      with ph have d: "0 < j" "cb = PlayNext ps (j - 1)"
        "onvoiceschanged st = None" "speaking st = None"
        by (auto simp: playAll_phase_def)
      show ?thesis
      proof (cases "shouldContinuePlaying st")
        case True
        have "browser lang st ev = (playSentenceSequentially lang ps j st)\<lparr>timeoutRef := None\<rparr>"
          using TimerFired Some d True by (simp add: browser_def onTimeout_def)
        then show ?thesis
          using play_step_phase[OF j sp d(3,4)] by simp
      next
        case False
        have "browser lang st ev = st\<lparr>timeoutRef := None\<rparr>"
          using TimerFired Some d False by (simp add: browser_def onTimeout_def)
        then show ?thesis
          using d j sp by (intro in_playAll_I[of j]) (auto simp: playAll_phase_def)
      qed
    qed
  qed
qed

lemma in_playAll_run:
  "in_playAll lang (filter (playable lang) (sortedSentences sentences))
     (foldl (browser lang) (handlePlayAll lang sentences (initial_player synthesis n)) evs)"
proof (induction evs rule: rev_induct)
  case Nil
  show ?case by (simp add: in_playAll_start)
next
  case (snoc ev evs)
  then show ?case by (simp add: in_playAll_browser)
qed

lemma deliver_idle: "pending v st = None \<Longrightarrow> deliver n lang v st = st"
  by (cases n) simp_all

lemma play_step_timeout:
  "(playSentenceSequentially lang ps i st)\<lparr>timeoutRef := t\<rparr>
     = playSentenceSequentially lang ps i (st\<lparr>timeoutRef := t\<rparr>)"
  by (simp add: playSentenceSequentially_def playAudio_def cancel_def speak_def Let_def)

text \<open>From the call for sentence \<open>i\<close> to the call for the next one.\<close>

lemma advance:
  assumes "speechSynthesis X" "shouldContinuePlaying X" "onvoiceschanged X = None"
    "speaking X = None" "timeoutRef X = None" "i < length ps"
  shows "\<exists>X'. speechSynthesis X' \<and> shouldContinuePlaying X' \<and> onvoiceschanged X' = None
            \<and> speaking X' = None \<and> timeoutRef X' = None
            \<and> spoken X' = spoken X @ [(sentence_text lang (ps ! i), language_tag lang)]
            \<and> ((\<forall>n. deliver (Suc (Suc (Suc n))) lang v (playSentenceSequentially lang ps i X)
                      = deliver (Suc n) lang v (playSentenceSequentially lang ps (Suc i) X'))
                \<or> (\<forall>n. deliver (Suc (Suc (Suc n))) lang v (playSentenceSequentially lang ps i X)
                      = deliver n lang v (playSentenceSequentially lang ps (Suc i) X')))"
proof -
  define Y where "Y = X\<lparr>playingSentenceId := Some (cs_id (ps ! i)), currentPlayAllIndex := i\<rparr>"
  define u where "u = sentence_utterance lang ps i"
  show ?thesis
  proof (cases "voices X = 0")
    case False
    define S1 where "S1 = speak u Y"
    define S2 where "S2 = S1\<lparr>speaking := None, timeoutRef := Some (PlayNext ps i)\<rparr>"
    define X' where "X' = S2\<lparr>timeoutRef := None\<rparr>"
    have p: "playSentenceSequentially lang ps i X = S1"
      using assms False
      by (simp add: playSentenceSequentially_def playAudio_def cancel_def Let_def S1_def Y_def
            u_def sentence_utterance_def speak_def)
    have s1: "pending v S1 = Some UtteranceEnded" "browser lang S1 UtteranceEnded = S2"
      using assms
      by (simp_all add: pending_def browser_def onEnd_def S1_def S2_def Y_def u_def speak_def
            sentence_utterance_def)
    have s2: "pending v S2 = Some TimerFired"
      "browser lang S2 TimerFired = playSentenceSequentially lang ps (Suc i) X'"
      using assms
      by (simp_all add: pending_def browser_def onTimeout_def play_step_timeout
            S1_def S2_def X'_def Y_def u_def speak_def)
    have x: "speechSynthesis X'" "shouldContinuePlaying X'" "onvoiceschanged X' = None"
      "speaking X' = None" "timeoutRef X' = None"
      "spoken X' = spoken X @ [(sentence_text lang (ps ! i), language_tag lang)]"
      using assms
      by (simp_all add: S1_def S2_def X'_def Y_def u_def speak_def sentence_utterance_def)
    have "\<forall>n. deliver (Suc (Suc (Suc n))) lang v (playSentenceSequentially lang ps i X)
                = deliver (Suc n) lang v (playSentenceSequentially lang ps (Suc i) X')"
      by (simp add: p s1 s2)
    with x show ?thesis by blast
  next
    case True
    define D where "D = Y\<lparr>onvoiceschanged := Some u\<rparr>"
    define S1 where "S1 = speak u (D\<lparr>voices := v, onvoiceschanged := None\<rparr>)"
    define S2 where "S2 = S1\<lparr>speaking := None, timeoutRef := Some (PlayNext ps i)\<rparr>"
    define X' where "X' = S2\<lparr>timeoutRef := None\<rparr>"
    have p: "playSentenceSequentially lang ps i X = D"
      using assms True
      by (simp add: playSentenceSequentially_def playAudio_def cancel_def Let_def D_def Y_def
            u_def sentence_utterance_def)
    have d: "pending v D = Some (VoicesChanged v)" "browser lang D (VoicesChanged v) = S1"
      by (simp_all add: pending_def browser_def D_def S1_def)
    have s1: "pending v S1 = Some UtteranceEnded" "browser lang S1 UtteranceEnded = S2"
      using assms
      by (simp_all add: pending_def browser_def onEnd_def D_def S1_def S2_def Y_def u_def speak_def
            sentence_utterance_def)
    have s2: "pending v S2 = Some TimerFired"
      "browser lang S2 TimerFired = playSentenceSequentially lang ps (Suc i) X'"
      using assms
      by (simp_all add: pending_def browser_def onTimeout_def play_step_timeout
            D_def S1_def S2_def X'_def Y_def u_def speak_def)
    have x: "speechSynthesis X'" "shouldContinuePlaying X'" "onvoiceschanged X' = None"
      "speaking X' = None" "timeoutRef X' = None"
      "spoken X' = spoken X @ [(sentence_text lang (ps ! i), language_tag lang)]"
      using assms
      by (simp_all add: D_def S1_def S2_def X'_def Y_def u_def speak_def sentence_utterance_def)
    have "\<forall>n. deliver (Suc (Suc (Suc n))) lang v (playSentenceSequentially lang ps i X)
                = deliver n lang v (playSentenceSequentially lang ps (Suc i) X')"
      by (simp add: p d s1 s2)
    with x show ?thesis by blast
  qed
qed

lemma play_from:
  assumes "speechSynthesis X" "shouldContinuePlaying X" "onvoiceschanged X = None"
    "speaking X = None" "timeoutRef X = None" "i \<le> length ps"
  shows "spoken (deliver (3 * (length ps - i) + k) lang v (playSentenceSequentially lang ps i X))
           = spoken X @ map (\<lambda>s. (sentence_text lang s, language_tag lang)) (drop i ps)
         \<and> \<not> isPlayingAll (deliver (3 * (length ps - i) + k) lang v
                             (playSentenceSequentially lang ps i X))
         \<and> \<not> shouldContinuePlaying (deliver (3 * (length ps - i) + k) lang v
                                      (playSentenceSequentially lang ps i X))
         \<and> playingSentenceId (deliver (3 * (length ps - i) + k) lang v
                                (playSentenceSequentially lang ps i X)) = None
         \<and> pending v (deliver (3 * (length ps - i) + k) lang v
                        (playSentenceSequentially lang ps i X)) = None"
  using assms
proof (induction "length ps - i" arbitrary: i X k)
  case 0
  define F where "F = playSentenceSequentially lang ps i X"
  have i: "i = length ps" using 0 by simp
  have f: "spoken F = spoken X" "\<not> isPlayingAll F" "\<not> shouldContinuePlaying F"
    "playingSentenceId F = None" "pending v F = None"
    using 0 i by (simp_all add: F_def playSentenceSequentially_def pending_def)
  from deliver_idle[OF f(5)] f i show ?case by (simp add: F_def)
next
  case (Suc m)
  then have il: "i < length ps" and m: "m = length ps - Suc i" by simp_all
  from advance[OF Suc.prems(1-5) il, of lang v] obtain X' where
    x: "speechSynthesis X'" "shouldContinuePlaying X'" "onvoiceschanged X' = None"
       "speaking X' = None" "timeoutRef X' = None"
    and sx: "spoken X' = spoken X @ [(sentence_text lang (ps ! i), language_tag lang)]"
    and st: "(\<forall>n. deliver (Suc (Suc (Suc n))) lang v (playSentenceSequentially lang ps i X)
                      = deliver (Suc n) lang v (playSentenceSequentially lang ps (Suc i) X'))
             \<or> (\<forall>n. deliver (Suc (Suc (Suc n))) lang v (playSentenceSequentially lang ps i X)
                      = deliver n lang v (playSentenceSequentially lang ps (Suc i) X'))"
    by blast
  have fuel: "3 * (length ps - i) + k = Suc (Suc (Suc (3 * m + k)))"
    using Suc.hyps(2) by simp
  have le: "Suc i \<le> length ps" using il by simp
  have dr: "drop i ps = ps ! i # drop (Suc i) ps"
    using il by (simp add: Cons_nth_drop_Suc)
  from st obtain k' where
    e: "deliver (3 * (length ps - i) + k) lang v (playSentenceSequentially lang ps i X)
          = deliver (3 * (length ps - Suc i) + k') lang v (playSentenceSequentially lang ps (Suc i) X')"
  proof
    assume a: "\<forall>n. deliver (Suc (Suc (Suc n))) lang v (playSentenceSequentially lang ps i X)
                      = deliver (Suc n) lang v (playSentenceSequentially lang ps (Suc i) X')"
    have "deliver (Suc (Suc (Suc (3 * m + k)))) lang v (playSentenceSequentially lang ps i X)
          = deliver (Suc (3 * m + k)) lang v (playSentenceSequentially lang ps (Suc i) X')"
      using a by blast
    then have "deliver (3 * (length ps - i) + k) lang v (playSentenceSequentially lang ps i X)
          = deliver (3 * (length ps - Suc i) + Suc k) lang v
              (playSentenceSequentially lang ps (Suc i) X')"
      unfolding fuel m by (simp only: add_Suc_right)
    then show ?thesis by (rule that)
  next
    assume a: "\<forall>n. deliver (Suc (Suc (Suc n))) lang v (playSentenceSequentially lang ps i X)
                      = deliver n lang v (playSentenceSequentially lang ps (Suc i) X')"
    have "deliver (Suc (Suc (Suc (3 * m + k)))) lang v (playSentenceSequentially lang ps i X)
          = deliver (3 * m + k) lang v (playSentenceSequentially lang ps (Suc i) X')"
      using a by blast
    then have "deliver (3 * (length ps - i) + k) lang v (playSentenceSequentially lang ps i X)
          = deliver (3 * (length ps - Suc i) + k) lang v
              (playSentenceSequentially lang ps (Suc i) X')"
      unfolding fuel m .
    then show ?thesis by (rule that)
  qed
  from Suc.hyps(1)[OF m x le, of k'] show ?case
    unfolding e by (simp add: sx dr)
qed

lemma playable_iff:
  "playable lang s \<longleftrightarrow> length (trim (sentence_text lang s)) > 0"
  by (cases lang) (auto simp: playable_def sentence_text_def trim_def split: option.splits)

text \<open>
  Claim C7, amended. The sentences of a Play All are those whose text in the selected
  language is not empty after trimming, each once, in ascending order of \<^verbatim>\<open>order\<close>.
  Whatever the browser does after the press, with or without speech synthesis, the
  utterances spoken so far are the first ones of that sequence, one for each sentence
  reached: a sentence whose text is empty after trimming is never spoken. Where speech
  synthesis exists and the browser calls back every handler it owes (voices changed,
  utterance ended, timer), all of them are spoken and the playback is over with nothing
  pending.
\<close>

theorem play_all:
  "(\<exists>played.
      playAll_utterances selectedLanguage sentences
        = map (\<lambda>s. (sentence_text selectedLanguage s, language_tag selectedLanguage)) played
      \<and> mset played
          = filter_mset (\<lambda>s. length (trim (sentence_text selectedLanguage s)) > 0) (mset sentences)
      \<and> sorted (map cs_order played))
   \<and> (\<exists>j. spoken (foldl (browser selectedLanguage)
                    (handlePlayAll selectedLanguage sentences (initial_player synthesis n)) evs)
            = take j (playAll_utterances selectedLanguage sentences))
   \<and> (3 * length sentences \<le> fuel \<longrightarrow>
        spoken (deliver fuel selectedLanguage v
                  (handlePlayAll selectedLanguage sentences (initial_player True n)))
          = playAll_utterances selectedLanguage sentences
        \<and> \<not> isPlayingAll (deliver fuel selectedLanguage v
                              (handlePlayAll selectedLanguage sentences (initial_player True n)))
        \<and> pending v (deliver fuel selectedLanguage v
                        (handlePlayAll selectedLanguage sentences (initial_player True n)))
            = None)"
proof -
  let ?ps = "filter (playable selectedLanguage) (sortedSentences sentences)"
  let ?f = "\<lambda>s. (sentence_text selectedLanguage s, language_tag selectedLanguage)"
  have u: "playAll_utterances selectedLanguage sentences = map ?f ?ps"
    by (simp add: playAll_utterances_def)
  have "mset ?ps
          = filter_mset (\<lambda>s. length (trim (sentence_text selectedLanguage s)) > 0) (mset sentences)"
    by (simp add: sortedSentences_def playable_iff)
  moreover have "sorted (map cs_order ?ps)"
    by (simp add: sortedSentences_def sorted_filter)
  ultimately have 1: "\<exists>played.
      playAll_utterances selectedLanguage sentences = map ?f played
      \<and> mset played
          = filter_mset (\<lambda>s. length (trim (sentence_text selectedLanguage s)) > 0) (mset sentences)
      \<and> sorted (map cs_order played)"
    using u by blast
  have 2: "\<exists>j. spoken (foldl (browser selectedLanguage)
                    (handlePlayAll selectedLanguage sentences (initial_player synthesis n)) evs)
            = take j (playAll_utterances selectedLanguage sentences)"
    using in_playAll_run[of selectedLanguage sentences synthesis n evs]
    unfolding in_playAll_def u by (auto simp: take_map)
  have 3: "spoken (deliver fuel selectedLanguage v
                  (handlePlayAll selectedLanguage sentences (initial_player True n)))
          = playAll_utterances selectedLanguage sentences
        \<and> \<not> isPlayingAll (deliver fuel selectedLanguage v
                              (handlePlayAll selectedLanguage sentences (initial_player True n)))
        \<and> pending v (deliver fuel selectedLanguage v
                        (handlePlayAll selectedLanguage sentences (initial_player True n)))
            = None"
    if fuel: "3 * length sentences \<le> fuel"
  proof (cases "?ps = []")
    case True
    then have h: "handlePlayAll selectedLanguage sentences (initial_player True n)
                    = initial_player True n"
      by (simp add: handlePlayAll_def initial_player_def)
    have "pending v (initial_player True n) = None"
      by (simp add: pending_def initial_player_def)
    from deliver_idle[OF this] h True u show ?thesis
      by (simp add: initial_player_def pending_def)
  next
    case False
    define X where "X = (initial_player True n)
        \<lparr>shouldContinuePlaying := True, isPlayingAll := True, currentPlayAllIndex := 0,
         playAllQueue := map cs_id ?ps\<rparr>"
    have h: "handlePlayAll selectedLanguage sentences (initial_player True n)
               = playSentenceSequentially selectedLanguage ?ps 0 X"
      using False by (simp add: handlePlayAll_def initial_player_def X_def Let_def)
    have "length ?ps \<le> length sentences"
      using length_filter_le[of "playable selectedLanguage" "sortedSentences sentences"]
      by (simp add: sortedSentences_def)
    with fuel have k: "fuel = 3 * (length ?ps - 0) + (fuel - 3 * length ?ps)" by simp
    have x: "speechSynthesis X" "shouldContinuePlaying X" "onvoiceschanged X = None"
      "speaking X = None" "timeoutRef X = None" "spoken X = []"
      by (simp_all add: X_def initial_player_def)
    from play_from[OF x(1-5), of 0 ?ps "fuel - 3 * length ?ps" selectedLanguage v] k
    have "spoken (deliver fuel selectedLanguage v (playSentenceSequentially selectedLanguage ?ps 0 X))
            = spoken X @ map ?f (drop 0 ?ps)
          \<and> \<not> isPlayingAll (deliver fuel selectedLanguage v
                               (playSentenceSequentially selectedLanguage ?ps 0 X))
          \<and> pending v (deliver fuel selectedLanguage v
                         (playSentenceSequentially selectedLanguage ?ps 0 X)) = None"
      by simp
    then show ?thesis by (simp add: h u x(6))
  qed
  from 1 2 3 show ?thesis by blast
qed

lemma example_play_runs:
  "playAll_utterances Arabic example_sentences
     = [([0x645, 0x631, 0x62D, 0x628, 0x627], ascii ''ar-SA''),
        ([0x645, 0x639, 0x20, 0x627, 0x644, 0x633, 0x644, 0x627, 0x645, 0x629], ascii ''ar-SA'')]"
  "spoken (foldl (browser Arabic) (handlePlayAll Arabic example_sentences (initial_player True 0))
             [UtteranceEnded, VoicesChanged 2, TimerFired, UtteranceEnded])
     = [([0x645, 0x631, 0x62D, 0x628, 0x627], ascii ''ar-SA'')]"
  "3 * length example_sentences \<le> 9"
  "spoken (handlePlayAll Arabic example_sentences (initial_player False 2)) = []"
  "isPlayingAll (handlePlayAll Arabic example_sentences (initial_player False 2))"
  "pending 2 (handlePlayAll Arabic example_sentences (initial_player False 2)) = None"
  "spoken (foldl (browser Arabic) (handlePlayAll Arabic example_sentences (initial_player False 2))
             [VoicesChanged 2, UtteranceEnded, TimerFired]) = []"
  "isPlayingAll (foldl (browser Arabic) (handlePlayAll Arabic example_sentences (initial_player False 2))
             [VoicesChanged 2, UtteranceEnded, TimerFired])"
  by code_simp+

theorem play_all_witness:
  "3 * length example_sentences \<le> 9
   \<and> playAll_utterances Arabic example_sentences
       = [([0x645, 0x631, 0x62D, 0x628, 0x627], ascii ''ar-SA''),
          ([0x645, 0x639, 0x20, 0x627, 0x644, 0x633, 0x644, 0x627, 0x645, 0x629], ascii ''ar-SA'')]
   \<and> spoken (deliver 9 Arabic 2 (handlePlayAll Arabic example_sentences (initial_player True 0)))
       = [([0x645, 0x631, 0x62D, 0x628, 0x627], ascii ''ar-SA''),
          ([0x645, 0x639, 0x20, 0x627, 0x644, 0x633, 0x644, 0x627, 0x645, 0x629], ascii ''ar-SA'')]
   \<and> \<not> isPlayingAll (deliver 9 Arabic 2
                         (handlePlayAll Arabic example_sentences (initial_player True 0)))
   \<and> spoken (foldl (browser Arabic) (handlePlayAll Arabic example_sentences (initial_player True 0))
               [UtteranceEnded, VoicesChanged 2, TimerFired, UtteranceEnded])
       = [([0x645, 0x631, 0x62D, 0x628, 0x627], ascii ''ar-SA'')]"
  using play_all[of Arabic example_sentences True 0
      "[UtteranceEnded, VoicesChanged 2, TimerFired, UtteranceEnded]" 9 2]
    example_play_runs(1-3)
  by simp

theorem no_speech_counterexample:
  "playAll_utterances Arabic example_sentences
     = [([0x645, 0x631, 0x62D, 0x628, 0x627], ascii ''ar-SA''),
        ([0x645, 0x639, 0x20, 0x627, 0x644, 0x633, 0x644, 0x627, 0x645, 0x629], ascii ''ar-SA'')]
   \<and> spoken (handlePlayAll Arabic example_sentences (initial_player False 2)) = []
   \<and> isPlayingAll (handlePlayAll Arabic example_sentences (initial_player False 2))
   \<and> pending 2 (handlePlayAll Arabic example_sentences (initial_player False 2)) = None
   \<and> spoken (foldl (browser Arabic)
               (handlePlayAll Arabic example_sentences (initial_player False 2))
               [VoicesChanged 2, UtteranceEnded, TimerFired]) = []
   \<and> isPlayingAll (foldl (browser Arabic)
                     (handlePlayAll Arabic example_sentences (initial_player False 2))
                     [VoicesChanged 2, UtteranceEnded, TimerFired])"
  using example_play_runs by simp

end
